theory Spec2Isabelle
  imports Complex_Main
begin

section \<open>JavaScript values and errors\<close>

text \<open>
  The values that cross the tool boundary are JSON-like: tool arguments produced by a
  provider, the objects returned by the handlers.  Numbers are integers here; fractions
  are not modelled.  Strings are sequences of code units below 256 (Latin-1).  An object
  is the list of its own properties in insertion order; inherited properties (the methods
  of \<open>Object.prototype\<close> and \<open>Array.prototype\<close>) are functions, which no JSON value
  is, and are not modelled.
\<close>

datatype jsval =
    JUndefined
  | JNull
  | JBool bool
  | JNum int
  | JStr string
  | JArr "jsval list"
  | JObj "(string \<times> jsval) list"

text \<open>A thrown value: an \<open>Error\<close> object with its name and message, and the
  \<open>stdout\<close>/\<open>stderr\<close> properties a failed process may attach.  The runtime's
  rendering of the call stack (\<open>error.stack\<close>) is not modelled.\<close>

datatype js_error = JsError (err_name: string) (err_message: string) (err_stdout: jsval) (err_stderr: jsval)

definition Error :: "string \<Rightarrow> js_error" where
  "Error msg = JsError ''Error'' msg JUndefined JUndefined"

definition TypeError :: "string \<Rightarrow> js_error" where
  "TypeError msg = JsError ''TypeError'' msg JUndefined JUndefined"

text \<open>Truthiness, as \<open>||\<close>, \<open>&&\<close>, \<open>!\<close> and \<open>if\<close> read a value.\<close>

fun truthy :: "jsval \<Rightarrow> bool" where
  "truthy JUndefined = False"
| "truthy JNull = False"
| "truthy (JBool b) = b"
| "truthy (JNum n) = (n \<noteq> 0)"
| "truthy (JStr s) = (s \<noteq> [])"
| "truthy (JArr xs) = True"
| "truthy (JObj kvs) = True"

text \<open>A default parameter \<open>p = null\<close>: the default stands in for an argument that is
  absent or \<open>undefined\<close>, and for no other value.\<close>

definition default_null :: "jsval \<Rightarrow> jsval" where
  "default_null v = (if v = JUndefined then JNull else v)"

text \<open>The decimal rendering of an array index.\<close>

function show_nat :: "nat \<Rightarrow> string" where
  "show_nat n = (if n < 10 then [char_of (48 + n)] else show_nat (n div 10) @ [char_of (48 + n mod 10)])"
  by pat_completeness auto
termination
  by (relation "measure id") auto

definition array_keys :: "jsval list \<Rightarrow> string list" where
  "array_keys xs = map show_nat [0..<length xs]"

text \<open>Property read \<open>o.k\<close> on a value that is neither \<open>undefined\<close> nor \<open>null\<close>: the
  last binding of the key in an object, an element or the length of an array or a string,
  \<open>undefined\<close> otherwise.\<close>

fun get_prop :: "jsval \<Rightarrow> string \<Rightarrow> jsval" where
  "get_prop (JObj kvs) k = (case map_of (rev kvs) k of Some v \<Rightarrow> v | None \<Rightarrow> JUndefined)"
| "get_prop (JArr xs) k =
     (if k = ''length'' then JNum (int (length xs))
      else case map_of (zip (array_keys xs) xs) k of Some v \<Rightarrow> v | None \<Rightarrow> JUndefined)"
| "get_prop (JStr cs) k =
     (if k = ''length'' then JNum (int (length cs))
      else case map_of (zip (map show_nat [0..<length cs]) (map (\<lambda>c. JStr [c]) cs)) k of
             Some v \<Rightarrow> v | None \<Rightarrow> JUndefined)"
| "get_prop v k = JUndefined"

text \<open>Reading a property of \<open>undefined\<close> or \<open>null\<close> throws a \<open>TypeError\<close>.  (The
  messages of the errors the runtime raises are the engine's; they are abbreviated
  here.)\<close>

definition read_prop :: "jsval \<Rightarrow> string \<Rightarrow> js_error + jsval" where
  "read_prop v k =
     (if v = JUndefined \<or> v = JNull
      then Inl (TypeError (''Cannot read properties of undefined or null (reading '' @ k @ '')''))
      else Inr (get_prop v k))"

text \<open>The operator \<open>k in v\<close>: a \<open>TypeError\<close> unless \<open>v\<close> is an object or an
  array.  The operator also finds inherited properties; none of the parameter names of
  the tool catalog is one.\<close>

fun js_in :: "string \<Rightarrow> jsval \<Rightarrow> js_error + bool" where
  "js_in k (JObj kvs) = Inr (k \<in> set (map fst kvs))"
| "js_in k (JArr xs) = Inr (k = ''length'' \<or> k \<in> set (array_keys xs))"
| "js_in k v = Inl (TypeError (''Cannot use in operator to search for '' @ k))"

section \<open>String normalisation (\<open>toLowerCase\<close>, \<open>replace(/\s+/g, ' ')\<close>, \<open>trim\<close>)\<close>

definition toLowerCase_char :: "char \<Rightarrow> char" where
  "toLowerCase_char c =
     (let n = (of_char c :: nat)
      in if (65 \<le> n \<and> n \<le> 90) \<or> (192 \<le> n \<and> n \<le> 214) \<or> (216 \<le> n \<and> n \<le> 222)
         then char_of (n + 32) else c)"

definition toLowerCase :: "string \<Rightarrow> string" where
  "toLowerCase s = map toLowerCase_char s"

text \<open>The class \<open>\s\<close> below 256: tab, line feed, vertical tab, form feed, carriage
  return, space and no-break space.\<close>

definition is_space :: "char \<Rightarrow> bool" where
  "is_space c = ((of_char c :: nat) \<in> {9, 10, 11, 12, 13, 32, 160})"

function collapse_whitespace :: "string \<Rightarrow> string" where
  "collapse_whitespace [] = []"
| "collapse_whitespace (c # cs) =
     (if is_space c then CHR '' '' # collapse_whitespace (dropWhile is_space cs)
      else c # collapse_whitespace cs)"
  by pat_completeness auto
termination
  by (relation "measure length") (auto simp: less_Suc_eq_le length_dropWhile_le)

definition trim :: "string \<Rightarrow> string" where
  "trim s = rev (dropWhile is_space (rev (dropWhile is_space s)))"

text \<open>\<open>s.includes(t)\<close> and \<open>s.substring(0, n)\<close>.\<close>

fun includes_str :: "string \<Rightarrow> string \<Rightarrow> bool" where
  "includes_str [] t = (t = [])"
| "includes_str (c # cs) t = (take (length t) (c # cs) = t \<or> includes_str cs t)"

definition substring0 :: "nat \<Rightarrow> string \<Rightarrow> string" where
  "substring0 n s = take n s"

section \<open>The memory store (\<open>SimpleMemory\<close>)\<close>

text \<open>
  Instants are numbers of milliseconds; \<open>new Date().toISOString()\<close> and
  \<open>Date.now().toString()\<close> are renderings of the instant and are modelled by the
  instant itself.  The readings of the clock inside one method call are taken as one
  instant, which the caller passes in.  A property name that two objects of the source
  share, or that is a keyword here, carries a prefix or a suffix: \<open>error_id\<close> and
  \<open>fix_id\<close> for \<open>id\<close>, \<open>fixes_m\<close> for \<open>fixes\<close>, \<open>exec_tool\<close> for \<open>tool\<close>.
\<close>

record error_entry =
  error_id :: nat
  signature :: string
  message :: string
  errorType :: "string option"
  error_context :: jsval
  count :: nat
  firstSeen :: nat
  lastSeen :: nat

record fix_entry =
  fix_id :: nat
  errorSignature :: string
  description :: string
  fix_context :: jsval
  createdAt :: nat

record execution_entry =
  exec_tool :: string
  exec_args :: jsval
  exec_success :: bool
  exec_error :: jsval
  timestamp :: nat

record memory_data =
  errors :: "error_entry list"
  fixes_m :: "fix_entry list"
  executions :: "execution_entry list"
  boards :: "jsval list"

text \<open>The store: the object's \<open>memory\<close> and \<open>loaded\<close> fields, and the JSON file
  behind it (\<open>None\<close>: missing or unreadable).  A write that fails is logged and
  ignored by \<open>save\<close>.\<close>

record simpleMemory =
  memory :: memory_data
  loaded :: bool
  disk :: "memory_data option"
  disk_writable :: bool

definition empty_memory :: memory_data where
  "empty_memory = \<lparr>errors = [], fixes_m = [], executions = [], boards = []\<rparr>"

definition new_SimpleMemory :: "memory_data option \<Rightarrow> bool \<Rightarrow> simpleMemory" where
  "new_SimpleMemory d w = \<lparr>memory = empty_memory, loaded = False, disk = d, disk_writable = w\<rparr>"

definition load :: "simpleMemory \<Rightarrow> simpleMemory" where
  "load s = s\<lparr>memory := (case disk s of Some d \<Rightarrow> d | None \<Rightarrow> empty_memory), loaded := True\<rparr>"

definition ensureLoaded :: "simpleMemory \<Rightarrow> simpleMemory" where
  "ensureLoaded s = (if loaded s then s else load s)"

definition save :: "simpleMemory \<Rightarrow> simpleMemory" where
  "save s = (if disk_writable s then s\<lparr>disk := Some (memory s)\<rparr> else s)"

text \<open>\<open>generateSignature\<close>.  The SHA-256 hex digest of Node's \<open>crypto\<close> module is the
  parameter \<open>H\<close>.\<close>

definition normalize :: "string \<Rightarrow> string" where
  "normalize text = trim (collapse_whitespace (toLowerCase text))"

definition generateSignature :: "(string \<Rightarrow> string) \<Rightarrow> string \<Rightarrow> string" where
  "generateSignature H text = substring0 16 (H (normalize text))"

text \<open>\<open>existing.count++\<close> changes the object that \<open>find\<close> returned, the first match,
  in place.\<close>

fun update_first :: "('a \<Rightarrow> bool) \<Rightarrow> ('a \<Rightarrow> 'a) \<Rightarrow> 'a list \<Rightarrow> 'a list" where
  "update_first P f [] = []"
| "update_first P f (x # xs) = (if P x then f x # xs else x # update_first P f xs)"

text \<open>\<open>recordError(errorMessage, errorType = null, context = null)\<close>.  The type
  \<open>None\<close> is \<open>null\<close>, which an absent type defaults to.\<close>

definition recordError ::
  "(string \<Rightarrow> string) \<Rightarrow> string \<Rightarrow> string option \<Rightarrow> jsval \<Rightarrow> nat \<Rightarrow> simpleMemory
     \<Rightarrow> string \<times> simpleMemory" where
  "recordError H errorMessage ty ctx now s0 =
     (let s = ensureLoaded s0;
          sig = generateSignature H errorMessage;
          es = errors (memory s)
      in case find (\<lambda>e. signature e = sig) es of
           Some existing \<Rightarrow>
             (sig, save (s\<lparr>memory := (memory s)\<lparr>errors :=
                update_first (\<lambda>e. signature e = sig)
                  (\<lambda>e. e\<lparr>count := count e + 1, lastSeen := now\<rparr>) es\<rparr>\<rparr>))
         | None \<Rightarrow>
             (sig, save (s\<lparr>memory := (memory s)\<lparr>errors := es @
                [\<lparr>error_id = now, signature = sig, message = errorMessage, errorType = ty,
                  error_context = default_null ctx, count = 1, firstSeen = now, lastSeen = now\<rparr>]\<rparr>\<rparr>)))"

record similar_match =
  sm_error :: error_entry
  sm_fixes :: "fix_entry list"
  confidence :: real

datatype search_result =
    ExactMatch error_entry "fix_entry list" real
  | SimilarMatches "similar_match list" nat

text \<open>\<open>xs.slice(0, limit)\<close>: a negative limit counts from the end.\<close>

definition slice0 :: "int \<Rightarrow> 'a list \<Rightarrow> 'a list" where
  "slice0 limit xs = (if 0 \<le> limit then take (nat limit) xs else take (length xs - nat (- limit)) xs)"

definition searchSimilarErrors ::
  "(string \<Rightarrow> string) \<Rightarrow> string \<Rightarrow> int \<Rightarrow> simpleMemory \<Rightarrow> search_result \<times> simpleMemory" where
  "searchSimilarErrors H query limit s0 =
     (let s = ensureLoaded s0;
          querySignature = generateSignature H query;
          queryLower = toLowerCase query
      in case find (\<lambda>e. signature e = querySignature) (errors (memory s)) of
           Some exactMatch \<Rightarrow>
             (ExactMatch exactMatch
                (filter (\<lambda>f. errorSignature f = querySignature) (fixes_m (memory s))) 1, s)
         | None \<Rightarrow>
             (let similar =
                    map (\<lambda>e. \<lparr>sm_error = e,
                              sm_fixes = filter (\<lambda>f. errorSignature f = signature e) (fixes_m (memory s)),
                              confidence = 1 / 2\<rparr>)
                      (slice0 limit
                        (filter (\<lambda>e. includes_str (toLowerCase (message e)) queryLower
                                   \<or> includes_str queryLower (substring0 50 (toLowerCase (message e))))
                           (errors (memory s))))
              in (SimilarMatches similar (length similar), s)))"

text \<open>\<open>recordFix(errorSignature, fixDescription, context = null)\<close>: the tool handler
  \<open>executeRecordFix\<close> passes \<open>args.context\<close>, which is \<open>undefined\<close> when the call has
  no such key.\<close>

definition recordFix ::
  "string \<Rightarrow> string \<Rightarrow> jsval \<Rightarrow> nat \<Rightarrow> simpleMemory \<Rightarrow> fix_entry \<times> simpleMemory" where
  "recordFix errSig fixDescription ctx now s0 =
     (let s = ensureLoaded s0;
          fix = \<lparr>fix_id = now, errorSignature = errSig, description = fixDescription,
                 fix_context = default_null ctx, createdAt = now\<rparr>
      in (fix, save (s\<lparr>memory := (memory s)\<lparr>fixes_m := fixes_m (memory s) @ [fix]\<rparr>\<rparr>)))"

text \<open>\<open>recordExecution(toolName, args, success, error = null)\<close>, with the window of the
  last 100 entries.\<close>

definition recordExecution ::
  "string \<Rightarrow> jsval \<Rightarrow> bool \<Rightarrow> jsval \<Rightarrow> nat \<Rightarrow> simpleMemory \<Rightarrow> simpleMemory" where
  "recordExecution toolName args ok err now s0 =
     (let s = ensureLoaded s0;
          ex = executions (memory s) @
                 [\<lparr>exec_tool = toolName, exec_args = args, exec_success = ok,
                   exec_error = default_null err, timestamp = now\<rparr>];
          ex' = (if length ex > 100 then drop (length ex - 100) ex else ex)
      in save (s\<lparr>memory := (memory s)\<lparr>executions := ex'\<rparr>\<rparr>))"

section \<open>The tool catalog (\<open>toolSchema\<close>)\<close>

text \<open>A catalog entry, as far as validation reads it: the name and
  \<open>parameters.required\<close> (\<open>None\<close> where the entry has no such list).  The
  descriptions and the property schemas play no part in \<open>validateToolCall\<close>.\<close>

record tool_def =
  tool_name :: string
  required :: "string list option"

definition TOOL_SCHEMA :: "tool_def list" where
  "TOOL_SCHEMA =
    [\<lparr>tool_name = ''compile_sketch'', required = Some []\<rparr>,
     \<lparr>tool_name = ''upload_sketch'', required = Some []\<rparr>,
     \<lparr>tool_name = ''list_boards'', required = None\<rparr>,
     \<lparr>tool_name = ''list_ports'', required = None\<rparr>,
     \<lparr>tool_name = ''connect_serial'', required = Some [''port'']\<rparr>,
     \<lparr>tool_name = ''disconnect_serial'', required = None\<rparr>,
     \<lparr>tool_name = ''send_serial'', required = Some [''data'']\<rparr>,
     \<lparr>tool_name = ''read_serial'', required = None\<rparr>,
     \<lparr>tool_name = ''auto_detect_baud'', required = Some [''port'']\<rparr>,
     \<lparr>tool_name = ''get_baud_rate'', required = None\<rparr>,
     \<lparr>tool_name = ''set_baud_rate'', required = Some [''baudRate'']\<rparr>,
     \<lparr>tool_name = ''get_available_baud_rates'', required = None\<rparr>,
     \<lparr>tool_name = ''get_editor_code'', required = None\<rparr>,
     \<lparr>tool_name = ''set_editor_code'', required = Some [''code'']\<rparr>,
     \<lparr>tool_name = ''edit_code'', required = Some [''operation'', ''startLine'']\<rparr>,
     \<lparr>tool_name = ''search_code'', required = Some [''searchText'']\<rparr>,
     \<lparr>tool_name = ''replace_in_code'', required = Some [''searchText'', ''replaceText'']\<rparr>,
     \<lparr>tool_name = ''get_current_sketch_path'', required = None\<rparr>,
     \<lparr>tool_name = ''save_sketch'', required = None\<rparr>,
     \<lparr>tool_name = ''analyze_error'', required = Some [''errorMessage'']\<rparr>,
     \<lparr>tool_name = ''search_memory'', required = Some [''query'']\<rparr>,
     \<lparr>tool_name = ''record_fix'', required = Some [''errorSignature'', ''fix'']\<rparr>,
     \<lparr>tool_name = ''get_current_state'', required = None\<rparr>]"

definition DEBUG_TOOL_NAMES :: "string list" where
  "DEBUG_TOOL_NAMES = [''analyze_error'', ''search_memory'', ''record_fix'']"

definition getAllTools :: "tool_def list" where
  "getAllTools = TOOL_SCHEMA"

definition getDebugTools :: "tool_def list" where
  "getDebugTools = filter (\<lambda>t. tool_name t \<in> set DEBUG_TOOL_NAMES) TOOL_SCHEMA"

definition getTool :: "string \<Rightarrow> tool_def option" where
  "getTool n = find (\<lambda>t. tool_name t = n) TOOL_SCHEMA"

text \<open>A tool call.  An absent or empty \<open>name\<close> is the empty string (both are falsy);
  \<open>arguments\<close> is whatever value the caller put there, \<open>JUndefined\<close> when the
  property is absent.\<close>

record toolCall =
  call_id :: string
  name :: string
  arguments :: jsval

datatype validation = Valid | Invalid string

text \<open>The loop over \<open>tool.parameters.required\<close>: it stops at the first missing
  parameter, and \<open>param in toolCall.arguments\<close> throws when the arguments are not an
  object.\<close>

fun check_required :: "string list \<Rightarrow> jsval \<Rightarrow> js_error + validation" where
  "check_required [] a = Inr Valid"
| "check_required (p # ps) a =
     (case js_in p a of
        Inl e \<Rightarrow> Inl e
      | Inr present \<Rightarrow>
          if \<not> present then Inr (Invalid (''Missing required parameter: '' @ p))
          else check_required ps a)"

definition validateToolCall :: "toolCall \<Rightarrow> js_error + validation" where
  "validateToolCall tc =
     (if name tc = [] then Inr (Invalid ''Tool name is required'')
      else case getTool (name tc) of
             None \<Rightarrow> Inr (Invalid (''Unknown tool: '' @ name tc))
           | Some t \<Rightarrow>
               (case required t of
                  None \<Rightarrow> Inr Valid
                | Some ps \<Rightarrow> check_required ps (arguments tc)))"

section \<open>Effects: awaiting a collaborator\<close>

text \<open>A call into a collaborator takes the state of the world and gives back the new
  state together with the awaited value, or with the error the promise was rejected
  with.\<close>

type_synonym ('a, 's) eff = "'s \<Rightarrow> (js_error + 'a) \<times> 's"

definition returnE :: "'a \<Rightarrow> ('a, 's) eff" where
  "returnE a s = (Inr a, s)"


definition bindE :: "('a, 's) eff \<Rightarrow> ('a \<Rightarrow> ('b, 's) eff) \<Rightarrow> ('b, 's) eff" where
  "bindE m f s = (case m s of (Inl e, s') \<Rightarrow> (Inl e, s') | (Inr a, s') \<Rightarrow> f a s')"

text \<open>A synchronous step that may throw.\<close>

definition liftE :: "js_error + 'a \<Rightarrow> ('a, 's) eff" where
  "liftE r s = (r, s)"

section \<open>The tool executor (\<open>ToolExecutor\<close>)\<close>

text \<open>The callbacks into the editor that \<open>executeCompile\<close> and \<open>executeUpload\<close> use;
  each may be missing from the \<open>uiCallbacks\<close> object.\<close>

record 'w uiCallbacks =
  getCurrentSketchPath :: "(jsval, 'w) eff option"
  getSelectedBoard :: "(jsval, 'w) eff option"
  getSelectedPort :: "(jsval, 'w) eff option"
  saveSketch :: "(jsval \<Rightarrow> (unit, 'w) eff) option"

record 'w serialMonitor =
  isConnected :: "'w \<Rightarrow> bool"
  disconnect :: "(unit, 'w) eff"

record 'w arduinoService =
  compile :: "jsval \<Rightarrow> jsval \<Rightarrow> (jsval, 'w) eff"
  upload :: "jsval \<Rightarrow> jsval \<Rightarrow> jsval \<Rightarrow> (jsval, 'w) eff"

text \<open>What an execution changes: the world of the collaborators (processes, the serial
  port, the editor, the executor's serial buffer) and the memory store handed to the
  constructor as \<open>aiMemory\<close> (\<open>None\<close>: constructed without one).\<close>

record 'w exec_state =
  world :: 'w
  aiMemory :: "simpleMemory option"

text \<open>The executor.  \<open>executeCompile\<close> and \<open>executeUpload\<close> are modelled below
  statement by statement.  The other twenty-one handlers are the field \<open>handlers\<close>,
  indexed by the tool name: each is an arbitrary effect on the world and the memory store
  that returns a value or throws, and every theorem holds for all of them.  \<open>clock\<close>
  reads the time of the world.\<close>

record 'w executor =
  arduinoService :: "'w arduinoService"
  serialMonitor :: "'w serialMonitor option"
  uiCallbacks :: "'w uiCallbacks option"
  handlers :: "string \<Rightarrow> jsval \<Rightarrow> (jsval, 'w exec_state) eff"
  clock :: "'w \<Rightarrow> nat"

text \<open>\<open>(args.k || '').trim()\<close>: a truthy value that is not a string has no
  \<open>trim\<close> method.\<close>

definition arg_trimmed :: "jsval \<Rightarrow> string \<Rightarrow> js_error + jsval" where
  "arg_trimmed args k =
     (case read_prop args k of
        Inl e \<Rightarrow> Inl e
      | Inr v \<Rightarrow>
          if \<not> truthy v then Inr (JStr [])
          else (case v of
                  JStr s \<Rightarrow> Inr (JStr (trim s))
                | _ \<Rightarrow> Inl (TypeError (''(args.'' @ k @ '' || empty).trim is not a function''))))"

text \<open>\<open>if (!v && this.uiCallbacks.cb) { v = (await this.uiCallbacks.cb()) || ''; }\<close>\<close>

definition resolve_from_ui :: "(jsval, 'w) eff option \<Rightarrow> jsval \<Rightarrow> (jsval, 'w) eff" where
  "resolve_from_ui cb v =
     (case cb of
        None \<Rightarrow> returnE v
      | Some f \<Rightarrow>
          if truthy v then returnE v
          else bindE f (\<lambda>r. returnE (if truthy r then r else JStr [])))"

text \<open>The default parameter \<open>args = {}\<close>.\<close>

definition default_args :: "jsval \<Rightarrow> jsval" where
  "default_args args = (if args = JUndefined then JObj [] else args)"

text \<open>The first half of \<open>executeCompile\<close>: the sketch path and the board, from the
  arguments or from the editor.\<close>

definition resolveCompileParams :: "'w executor \<Rightarrow> jsval \<Rightarrow> (jsval \<times> jsval, 'w) eff" where
  "resolveCompileParams ex args0 =
     (let args = default_args args0 in
      bindE (liftE (arg_trimmed args ''sketchPath'')) (\<lambda>sketchPath.
      bindE (liftE (arg_trimmed args ''boardFQBN'')) (\<lambda>boardFQBN.
        case uiCallbacks ex of
          None \<Rightarrow> returnE (sketchPath, boardFQBN)
        | Some cb \<Rightarrow>
            bindE (resolve_from_ui (getCurrentSketchPath cb) sketchPath) (\<lambda>sketchPath'.
            bindE (resolve_from_ui (getSelectedBoard cb) boardFQBN) (\<lambda>boardFQBN'.
              returnE (sketchPath', boardFQBN'))))))"

text \<open>\<open>if (this.uiCallbacks && this.uiCallbacks.saveSketch) await ...saveSketch(path)\<close>\<close>

definition save_before :: "'w executor \<Rightarrow> jsval \<Rightarrow> (unit, 'w) eff" where
  "save_before ex sketchPath =
     (case uiCallbacks ex of
        None \<Rightarrow> returnE ()
      | Some cb \<Rightarrow> (case saveSketch cb of None \<Rightarrow> returnE () | Some f \<Rightarrow> f sketchPath))"

text \<open>The \<open>catch (err)\<close> of the two handlers.\<close>

definition failure_of :: "js_error \<Rightarrow> jsval" where
  "failure_of err =
     JObj [(''success'', JBool False), (''error'', JStr (err_message err)),
           (''output'', if truthy (err_stdout err) then err_stdout err else err_stderr err)]"

definition or_else :: "jsval \<Rightarrow> jsval \<Rightarrow> jsval" where
  "or_else a b = (if truthy a then a else b)"

definition executeCompile :: "'w executor \<Rightarrow> jsval \<Rightarrow> (jsval, 'w) eff" where
  "executeCompile ex args =
     bindE (resolveCompileParams ex args) (\<lambda>(sketchPath, boardFQBN).
       if \<not> truthy sketchPath then
         returnE (JObj [(''success'', JBool False),
           (''error'', JStr ''No sketch open. Please open a .ino file first (Open Sketch in the sidebar).'')])
       else if \<not> truthy boardFQBN then
         returnE (JObj [(''success'', JBool False),
           (''error'', JStr ''No board selected. Please select a board from the Board dropdown in the sidebar.'')])
       else
         bindE (save_before ex sketchPath) (\<lambda>_. (\<lambda>w.
           case compile (arduinoService ex) sketchPath boardFQBN w of
             (Inl err, w') \<Rightarrow> (Inr (failure_of err), w')
           | (Inr compileResult, w') \<Rightarrow>
               (case read_prop compileResult ''output'' of
                  Inl err \<Rightarrow> (Inr (failure_of err), w')
                | Inr out \<Rightarrow>
                    (Inr (JObj [(''output'', out),
                               (''warnings'', or_else (get_prop compileResult ''warnings'') (JArr [])),
                               (''success'', JBool True),
                               (''message'', get_prop compileResult ''message'')]), w')))))"

text \<open>The first half of \<open>executeUpload\<close>: the sketch path, the board and the port.\<close>

definition resolveUploadParams ::
  "'w executor \<Rightarrow> jsval \<Rightarrow> (jsval \<times> jsval \<times> jsval, 'w) eff" where
  "resolveUploadParams ex args0 =
     (let args = default_args args0 in
      bindE (liftE (arg_trimmed args ''sketchPath'')) (\<lambda>sketchPath.
      bindE (liftE (arg_trimmed args ''boardFQBN'')) (\<lambda>boardFQBN.
      bindE (liftE (arg_trimmed args ''port'')) (\<lambda>port.
        case uiCallbacks ex of
          None \<Rightarrow> returnE (sketchPath, boardFQBN, port)
        | Some cb \<Rightarrow>
            bindE (resolve_from_ui (getCurrentSketchPath cb) sketchPath) (\<lambda>sketchPath'.
            bindE (resolve_from_ui (getSelectedBoard cb) boardFQBN) (\<lambda>boardFQBN'.
            bindE (resolve_from_ui (getSelectedPort cb) port) (\<lambda>port'.
              returnE (sketchPath', boardFQBN', port'))))))))"

text \<open>\<open>if (this.serialMonitor && this.serialMonitor.isConnected) await
  this.serialMonitor.disconnect()\<close>\<close>

definition free_port :: "'w executor \<Rightarrow> (unit, 'w) eff" where
  "free_port ex =
     (case serialMonitor ex of
        None \<Rightarrow> returnE ()
      | Some sm \<Rightarrow> (\<lambda>w. if isConnected sm w then disconnect sm w else (Inr (), w)))"

definition executeUpload :: "'w executor \<Rightarrow> jsval \<Rightarrow> (jsval, 'w) eff" where
  "executeUpload ex args =
     bindE (resolveUploadParams ex args) (\<lambda>(sketchPath, boardFQBN, port).
       if \<not> truthy sketchPath then
         returnE (JObj [(''success'', JBool False),
           (''error'', JStr ''No sketch open. Please open a .ino file first (Open Sketch in the sidebar).'')])
       else if \<not> truthy boardFQBN then
         returnE (JObj [(''success'', JBool False),
           (''error'', JStr ''No board selected. Please select a board from the Board dropdown.'')])
       else if \<not> truthy port then
         returnE (JObj [(''success'', JBool False),
           (''error'', JStr ''No port selected. Please select a port from the Port dropdown (and connect your board via USB).'')])
       else
         bindE (free_port ex) (\<lambda>_.
         bindE (save_before ex sketchPath) (\<lambda>_. (\<lambda>w.
           case upload (arduinoService ex) sketchPath boardFQBN port w of
             (Inl err, w') \<Rightarrow> (Inr (failure_of err), w')
           | (Inr uploadResult, w') \<Rightarrow>
               (case read_prop uploadResult ''output'' of
                  Inl err \<Rightarrow> (Inr (failure_of err), w')
                | Inr out \<Rightarrow>
                    (Inr (JObj [(''output'', out),
                               (''port'', get_prop uploadResult ''port''),
                               (''success'', JBool True),
                               (''message'', or_else (get_prop uploadResult ''message'')
                                  (JStr ''Upload complete''))]), w'))))))"

text \<open>A handler that only touches the world, run on the executor's state.\<close>

definition on_world :: "('a, 'w) eff \<Rightarrow> ('a, 'w exec_state) eff" where
  "on_world m s = (case m (world s) of (r, w') \<Rightarrow> (r, s\<lparr>world := w'\<rparr>))"

text \<open>The names the \<open>switch\<close> of \<open>execute\<close> routes to the handlers that are not
  modelled in detail.\<close>

definition other_tools :: "string list" where
  "other_tools =
    [''list_boards'', ''list_ports'', ''connect_serial'', ''disconnect_serial'', ''send_serial'',
     ''read_serial'', ''auto_detect_baud'', ''get_baud_rate'', ''set_baud_rate'',
     ''get_available_baud_rates'', ''get_editor_code'', ''set_editor_code'', ''edit_code'',
     ''search_code'', ''replace_in_code'', ''get_current_sketch_path'', ''save_sketch'',
     ''analyze_error'', ''search_memory'', ''record_fix'', ''get_current_state'']"

text \<open>The \<open>switch\<close>: \<open>Some\<close> the handler's result, \<open>None\<close> for the \<open>default\<close>
  branch, which returns from \<open>execute\<close> at once.\<close>

definition dispatch :: "'w executor \<Rightarrow> toolCall \<Rightarrow> (jsval option, 'w exec_state) eff" where
  "dispatch ex tc =
     (if name tc = ''compile_sketch'' then
        bindE (on_world (executeCompile ex (arguments tc))) (\<lambda>r. returnE (Some r))
      else if name tc = ''upload_sketch'' then
        bindE (on_world (executeUpload ex (arguments tc))) (\<lambda>r. returnE (Some r))
      else if name tc \<in> set other_tools then
        bindE (handlers ex (name tc) (arguments tc)) (\<lambda>r. returnE (Some r))
      else returnE None)"

text \<open>The result of \<open>execute\<close>.  \<open>executionTime\<close> is the property the agent adds to
  the object afterwards.  The \<open>stack\<close> property of the result for a caught exception is
  left out.\<close>

record toolResult =
  success :: bool
  tool :: string
  result :: "jsval option"
  error :: "string option"
  executionTime :: "int option"

text \<open>The bookkeeping after the \<open>switch\<close>: with a memory store, read
  \<open>result.success\<close> and \<open>result.error\<close> (a throw when the handler returned
  \<open>undefined\<close> or \<open>null\<close>) and record the execution.\<close>

definition record_outcome :: "'w executor \<Rightarrow> toolCall \<Rightarrow> jsval \<Rightarrow> (unit, 'w exec_state) eff" where
  "record_outcome ex tc r s =
     (case aiMemory s of
        None \<Rightarrow> (Inr (), s)
      | Some m \<Rightarrow>
          (case read_prop r ''success'' of
             Inl e \<Rightarrow> (Inl e, s)
           | Inr ok \<Rightarrow>
               (Inr (), s\<lparr>aiMemory := Some (recordExecution (name tc) (arguments tc)
                           (ok \<noteq> JBool False) (get_prop r ''error'') (clock ex (world s)) m)\<rparr>)))"

definition execute :: "'w executor \<Rightarrow> toolCall \<Rightarrow> (toolResult, 'w exec_state) eff" where
  "execute ex tc s =
     (case validateToolCall tc of
        Inl e \<Rightarrow> (Inl e, s)
      | Inr (Invalid msg) \<Rightarrow>
          (Inr \<lparr>success = False, tool = name tc, result = None, error = Some msg,
                executionTime = None\<rparr>, s)
      | Inr Valid \<Rightarrow>
          (case bindE (dispatch ex tc)
                  (\<lambda>d. case d of
                          None \<Rightarrow> returnE None
                        | Some r \<Rightarrow> bindE (record_outcome ex tc r) (\<lambda>_. returnE (Some r))) s of
             (Inl err, s') \<Rightarrow>
               (Inr \<lparr>success = False, tool = name tc, result = None,
                     error = Some (err_message err), executionTime = None\<rparr>, s')
           | (Inr None, s') \<Rightarrow>
               (Inr \<lparr>success = False, tool = name tc, result = None,
                     error = Some (''Unknown tool: '' @ name tc), executionTime = None\<rparr>, s')
           | (Inr (Some r), s') \<Rightarrow>
               (Inr \<lparr>success = True, tool = name tc, result = Some r, error = None,
                     executionTime = None\<rparr>, s')))"

section \<open>The agent (\<open>AIAgent\<close>)\<close>

datatype role = System | User | Assistant | Tool

text \<open>An entry of \<open>tool_calls\<close> in the assistant message the loop builds.\<close>

record tool_call_entry =
  entry_id :: string
  entry_type :: string
  function_name :: string
  function_arguments :: string

record message =
  role :: role
  content :: "string option"
  tool_calls :: "tool_call_entry list option"
  tool_call_id :: "string option"
  message_name :: "string option"

text \<open>What a provider's \<open>chat\<close> resolves with.  \<open>None\<close> is \<open>null\<close> or
  \<open>undefined\<close>.\<close>

record chat_response =
  response_content :: "string option"
  toolCalls :: "toolCall list option"
  response_usage :: jsval
  response_model :: jsval

record chat_options =
  opt_temperature :: real
  opt_max_tokens :: nat
  opt_tools :: "tool_def list"

record 'w provider =
  chat :: "message list \<Rightarrow> chat_options \<Rightarrow> (chat_response, 'w) eff"

text \<open>The mode is a string in the source; every string other than \<open>'ask'\<close> and
  \<open>'debug'\<close> selects all the tools and is \<open>Agent\<close> here.\<close>

datatype mode = Agent | Ask | Debug

text \<open>The IDE context of a query.  An absent or empty property is the empty string.\<close>

record query_context =
  hasFileOpen :: bool
  currentSketchPath :: string
  selectedBoard :: string
  selectedPort :: string

text \<open>The agent object.  The system prompts, \<open>JSON.stringify\<close> and the SHA-256 digest
  are parameters.  \<open>maxIterations\<close> is the bound the constructor stored in \<open>config\<close>:
  10 unless the caller's configuration has the property.\<close>

record 'w agent =
  toolExecutor :: "'w executor"
  currentProvider :: "'w provider option"
  maxIterations :: nat
  config_temperature :: real
  config_max_tokens :: nat
  getSystemPrompt :: "mode \<Rightarrow> string"
  stringify :: "jsval \<Rightarrow> string"
  stringify_context :: "query_context \<Rightarrow> string"
  sha256_hex :: "string \<Rightarrow> string"

text \<open>What a call changes: the state the executor works on (the agent's \<open>memory\<close> is
  the object it handed to the executor as \<open>aiMemory\<close>) and the conversation.\<close>

record 'w agent_state =
  exec :: "'w exec_state"
  conversationHistory :: "message list"

definition on_exec :: "('a, 'w exec_state) eff \<Rightarrow> ('a, 'w agent_state) eff" where
  "on_exec m s = (case m (exec s) of (r, es) \<Rightarrow> (r, s\<lparr>exec := es\<rparr>))"

definition getToolsForMode :: "mode \<Rightarrow> tool_def list" where
  "getToolsForMode m = (case m of Ask \<Rightarrow> [] | Debug \<Rightarrow> getDebugTools | Agent \<Rightarrow> getAllTools)"

record query_result =
  response :: "string option"
  toolResults :: "toolResult list"
  usage :: "jsval option"
  model :: "jsval option"
  warning :: "string option"

text \<open>The object \<open>JSON.stringify(result)\<close> serialises.\<close>

definition toolResult_json :: "toolResult \<Rightarrow> jsval" where
  "toolResult_json r =
     JObj ([(''success'', JBool (success r))]
           @ (case error r of Some e \<Rightarrow> [(''error'', JStr e)] | None \<Rightarrow> [])
           @ [(''tool'', JStr (tool r))]
           @ (case result r of Some v \<Rightarrow> [(''result'', v)] | None \<Rightarrow> [])
           @ (case executionTime r of Some t \<Rightarrow> [(''executionTime'', JNum t)] | None \<Rightarrow> []))"

definition tool_message :: "'w agent \<Rightarrow> toolCall \<Rightarrow> toolResult \<Rightarrow> message" where
  "tool_message ag toolCall r =
     \<lparr>role = Tool, content = Some (stringify ag (toolResult_json r)), tool_calls = None,
      tool_call_id = Some (call_id toolCall), message_name = Some (name toolCall)\<rparr>"

text \<open>\<open>result.executionTime = Date.now() - startTime\<close>, between the state before the
  call and the state after it.\<close>

definition timed :: "'w agent \<Rightarrow> 'w agent_state \<Rightarrow> 'w agent_state \<Rightarrow> toolResult \<Rightarrow> toolResult" where
  "timed ag s s' r =
     r\<lparr>executionTime := Some (int (clock (toolExecutor ag) (world (exec s')))
                             - int (clock (toolExecutor ag) (world (exec s))))\<rparr>"

text \<open>The \<open>for\<close> loop over \<open>response.toolCalls\<close>: one call after the other, each on
  the state the one before left; a rejected \<open>execute\<close> ends the loop and the query.\<close>

fun run_toolCalls ::
  "'w agent \<Rightarrow> toolCall list \<Rightarrow> message list \<Rightarrow> toolResult list
     \<Rightarrow> (message list \<times> toolResult list, 'w agent_state) eff" where
  "run_toolCalls ag [] messages results s = (Inr (messages, results), s)"
| "run_toolCalls ag (toolCall # rest) messages results s =
     (case on_exec (execute (toolExecutor ag) toolCall) s of
        (Inl e, s') \<Rightarrow> (Inl e, s')
      | (Inr r, s') \<Rightarrow>
          run_toolCalls ag rest (messages @ [tool_message ag toolCall (timed ag s s' r)])
            (results @ [timed ag s s' r]) s')"

definition assistant_message :: "'w agent \<Rightarrow> chat_response \<Rightarrow> toolCall list \<Rightarrow> message" where
  "assistant_message ag resp tcs =
     \<lparr>role = Assistant,
      content = (case response_content resp of Some c \<Rightarrow> if c = [] then None else Some c | None \<Rightarrow> None),
      tool_calls = Some (map (\<lambda>tc.
         \<lparr>entry_id = call_id tc, entry_type = ''function'', function_name = name tc,
          function_arguments =
            (case arguments tc of
               JStr a \<Rightarrow> a
             | a \<Rightarrow> stringify ag (if truthy a then a else JObj []))\<rparr>) tcs),
      tool_call_id = None, message_name = None\<rparr>"

text \<open>\<open>if (response.content) this.conversationHistory.push({role: 'assistant', ...})\<close>\<close>

definition push_assistant :: "chat_response \<Rightarrow> 'w agent_state \<Rightarrow> 'w agent_state" where
  "push_assistant resp s =
     (case response_content resp of
        None \<Rightarrow> s
      | Some c \<Rightarrow>
          if c = [] then s
          else s\<lparr>conversationHistory := conversationHistory s @
                 [\<lparr>role = Assistant, content = Some c, tool_calls = None, tool_call_id = None,
                   message_name = None\<rparr>]\<rparr>)"

text \<open>The variables of the \<open>while\<close> loop when it is left: by the \<open>return\<close> inside it
  (\<open>final\<close> is the response without tool calls) or because \<open>iteration\<close> reached
  \<open>maxIterations\<close> (\<open>final\<close> is \<open>None\<close>).\<close>

record loop_exit =
  final :: "chat_response option"
  iteration :: nat
  loop_messages :: "message list"
  loop_results :: "toolResult list"

function tool_loop ::
  "'w agent \<Rightarrow> 'w provider \<Rightarrow> chat_options \<Rightarrow> nat \<Rightarrow> message list \<Rightarrow> toolResult list
     \<Rightarrow> (loop_exit, 'w agent_state) eff" where
  "tool_loop ag pr opts i messages results s =
     (if i < maxIterations ag then
        (case on_exec (on_world (chat pr messages opts)) s of
           (Inl e, s1) \<Rightarrow> (Inl e, s1)
         | (Inr resp, s1) \<Rightarrow>
             (case toolCalls resp of
                None \<Rightarrow>
                  (Inr \<lparr>final = Some resp, iteration = i, loop_messages = messages,
                        loop_results = results\<rparr>, push_assistant resp s1)
              | Some tcs \<Rightarrow>
                  if tcs = [] then
                    (Inr \<lparr>final = Some resp, iteration = i, loop_messages = messages,
                          loop_results = results\<rparr>, push_assistant resp s1)
                  else
                    (case run_toolCalls ag tcs (messages @ [assistant_message ag resp tcs]) results s1 of
                       (Inl e, s2) \<Rightarrow> (Inl e, s2)
                     | (Inr (messages', results'), s2) \<Rightarrow>
                         tool_loop ag pr opts (i + 1) messages' results' s2)))
      else
        (Inr \<lparr>final = None, iteration = i, loop_messages = messages, loop_results = results\<rparr>, s))"
  by pat_completeness auto
termination
  by (relation "measure (\<lambda>(ag, pr, opts, i, messages, results, s). maxIterations ag - i)") auto

text \<open>The user message: the query behind the bracketed IDE context.\<close>

fun join :: "string list \<Rightarrow> string" where
  "join [] = []"
| "join [x] = x"
| "join (x # y # ys) = x @ '', '' @ join (y # ys)"

definition ide_tags :: "query_context \<Rightarrow> string list" where
  "ide_tags c =
     (if \<not> hasFileOpen c then [''NO_FILE_OPEN'']
      else if currentSketchPath c \<noteq> [] then [''sketch='' @ currentSketchPath c] else [])
     @ (if selectedBoard c \<noteq> [] then [''board='' @ selectedBoard c] else [])
     @ (if selectedPort c \<noteq> [] then [''port='' @ selectedPort c] else [])"

definition userContent :: "string \<Rightarrow> query_context \<Rightarrow> string" where
  "userContent userQuery c =
     (if ide_tags c \<noteq> [] then ''[IDE: '' @ join (ide_tags c) @ '']'' @ [CHR 0x0A, CHR 0x0A] @ userQuery
      else userQuery)"

definition push_user :: "string \<Rightarrow> query_context \<Rightarrow> 'w agent_state \<Rightarrow> 'w agent_state" where
  "push_user userQuery c s =
     s\<lparr>conversationHistory := conversationHistory s @
        [\<lparr>role = User, content = Some (userContent userQuery c), tool_calls = None,
          tool_call_id = None, message_name = None\<rparr>]\<rparr>"

definition initial_messages :: "'w agent \<Rightarrow> mode \<Rightarrow> 'w agent_state \<Rightarrow> message list" where
  "initial_messages ag m s =
     \<lparr>role = System, content = Some (getSystemPrompt ag m), tool_calls = None,
      tool_call_id = None, message_name = None\<rparr> # conversationHistory s"

definition chatOptions :: "'w agent \<Rightarrow> mode \<Rightarrow> chat_options" where
  "chatOptions ag m =
     \<lparr>opt_temperature = config_temperature ag,
      opt_max_tokens = (if config_max_tokens ag = 0 then 2000 else config_max_tokens ag),
      opt_tools = getToolsForMode m\<rparr>"

definition processQuery ::
  "'w agent \<Rightarrow> string \<Rightarrow> query_context \<Rightarrow> mode \<Rightarrow> (query_result, 'w agent_state) eff" where
  "processQuery ag userQuery c m s =
     (case currentProvider ag of
        None \<Rightarrow> (Inl (Error ''No provider selected. Please set a provider first.''), s)
      | Some pr \<Rightarrow>
          (let s0 = push_user userQuery c s;
               messages = initial_messages ag m s0;
               opts = chatOptions ag m
           in if getToolsForMode m = [] then
                (case on_exec (on_world (chat pr messages opts)) s0 of
                   (Inl e, s1) \<Rightarrow> (Inl e, s1)
                 | (Inr resp, s1) \<Rightarrow>
                     (Inr \<lparr>response = response_content resp, toolResults = [],
                           usage = Some (response_usage resp), model = Some (response_model resp),
                           warning = None\<rparr>, push_assistant resp s1))
              else
                (case tool_loop ag pr opts 0 messages [] s0 of
                   (Inl e, s1) \<Rightarrow> (Inl e, s1)
                 | (Inr lp, s1) \<Rightarrow>
                     (case final lp of
                        Some resp \<Rightarrow>
                          (Inr \<lparr>response = response_content resp, toolResults = loop_results lp,
                                usage = Some (response_usage resp), model = Some (response_model resp),
                                warning = None\<rparr>, s1)
                      | None \<Rightarrow>
                          (Inr \<lparr>response = Some ''Maximum iterations reached. Please refine your query.'',
                                toolResults = loop_results lp, usage = None, model = None,
                                warning = Some ''max_iterations_reached''\<rparr>, s1)))))"








section \<open>Predicates of the statements\<close>

text \<open>What the statements ask of the digest: 64 lower-case hexadecimal digits, as
  \<open>digest('hex')\<close> of SHA-256 gives.\<close>

definition hexdigits :: "char set" where
  "hexdigits = set ''0123456789abcdef''"

definition sha256_like :: "(string \<Rightarrow> string) \<Rightarrow> bool" where
  "sha256_like H = (\<forall>x. length (H x) = 64 \<and> set (H x) \<subseteq> hexdigits)"

text \<open>Following the spec's words, not the source: two texts are the same up to letter
  case and whitespace when their words (the runs of characters between whitespace) agree
  one by one, letter by letter, \<open>A\<close> to \<open>Z\<close> counting as \<open>a\<close> to \<open>z\<close>.  The normal
  form of a text is its lower-cased words with one space between them.\<close>

definition cons_word :: "char \<Rightarrow> string \<Rightarrow> string list \<Rightarrow> string list" where
  "cons_word c cs ws =
     (if is_space c then ws
      else if cs = [] \<or> is_space (hd cs) then [c] # ws
      else (c # hd ws) # tl ws)"

fun words_ws :: "string \<Rightarrow> string list" where
  "words_ws [] = []"
| "words_ws (c # cs) = cons_word c cs (words_ws cs)"

fun unwords :: "string list \<Rightarrow> string" where
  "unwords [] = []"
| "unwords [w] = w"
| "unwords (w # v # vs) = w @ CHR '' '' # unwords (v # vs)"

definition same_letter :: "char \<Rightarrow> char \<Rightarrow> bool" where
  "same_letter c d =
     (c = d \<or>
      (65 \<le> (of_char c :: nat) \<and> (of_char c :: nat) \<le> 90 \<and> (of_char d :: nat) = of_char c + 32) \<or>
      (65 \<le> (of_char d :: nat) \<and> (of_char d :: nat) \<le> 90 \<and> (of_char c :: nat) = of_char d + 32))"

definition same_text :: "string \<Rightarrow> string \<Rightarrow> bool" where
  "same_text a b = list_all2 (list_all2 same_letter) (words_ws a) (words_ws b)"

text \<open>A tool call as the data model types it: its arguments are a key-value object (or
  an array, which \<open>in\<close> also accepts).\<close>

definition has_arguments_object :: "toolCall \<Rightarrow> bool" where
  "has_arguments_object tc =
     (case arguments tc of JObj kvs \<Rightarrow> True | JArr xs \<Rightarrow> True | _ \<Rightarrow> False)"


definition always_proposes_tools :: "'w provider \<Rightarrow> bool" where
  "always_proposes_tools pr =
     (\<forall>messages opts w. \<exists>resp w' tcs. chat pr messages opts w = (Inr resp, w') \<and>
        toolCalls resp = Some tcs \<and> tcs \<noteq> [] \<and> (\<forall>tc \<in> set tcs. has_arguments_object tc))"

text \<open>Following the spec's words, not the source (the store keeps no such number): the
  \<open>successCount\<close> of a fix for a signature is the number of times the fix was recorded
  for it.\<close>

definition successCount_spec :: "fix_entry list \<Rightarrow> fix_entry \<Rightarrow> nat" where
  "successCount_spec fs f =
     length (filter (\<lambda>g. errorSignature g = errorSignature f \<and> description g = description f) fs)"

text \<open>The number of assistant messages with tool calls in a message list: one is
  appended in each round of the loop.\<close>

definition proposals :: "message list \<Rightarrow> nat" where
  "proposals ms = length (filter (\<lambda>x. role x = Assistant \<and> tool_calls x \<noteq> None) ms)"

section \<open>Test doubles\<close>

text \<open>A stand-in for the digest in the closed examples: the text in hexadecimal, padded
  with zeros and cut to 64 digits.\<close>

definition hex_char :: "nat \<Rightarrow> char" where
  "hex_char i = ''0123456789abcdef'' ! (i mod 16)"

definition stub_digest :: "string \<Rightarrow> string" where
  "stub_digest s =
     take 64 (concat (map (\<lambda>c. [hex_char ((of_char c :: nat) div 16), hex_char (of_char c)]) s)
              @ replicate 64 (CHR ''0''))"

text \<open>A world that keeps the time, the collaborator calls in the order they were made,
  and the number of provider calls.  Every collaborator call takes seven milliseconds.\<close>

record test_world =
  time :: nat
  calls :: "string list"
  chats :: nat

definition tick :: "string \<Rightarrow> test_world \<Rightarrow> test_world" where
  "tick n w = w\<lparr>time := time w + 7, calls := calls w @ [n]\<rparr>"

text \<open>An editor with no file open, no board and no port selected, as the main process
  wires the callbacks: each reads a field of the UI state, which is \<open>null\<close>.\<close>

definition idle_ui :: "test_world uiCallbacks" where
  "idle_ui =
     \<lparr>getCurrentSketchPath = Some (returnE JNull), getSelectedBoard = Some (returnE JNull),
      getSelectedPort = Some (returnE JNull), saveSketch = Some (\<lambda>p. returnE ())\<rparr>"

text \<open>An executor whose \<open>list_boards\<close> handler throws; the other handlers return an
  object.\<close>

definition test_executor :: "test_world executor" where
  "test_executor =
     \<lparr>arduinoService =
        \<lparr>compile = (\<lambda>p b w. (Inl (Error ''exit status 1''), tick ''compile'' w)),
         upload = (\<lambda>p b q w. (Inr (JObj [(''output'', JStr ''done'')]), tick ''upload'' w))\<rparr>,
      serialMonitor = None,
      uiCallbacks = Some idle_ui,
      handlers = (\<lambda>n a s.
         if n = ''list_boards''
         then (Inl (Error ''arduino-cli not found''), s\<lparr>world := tick n (world s)\<rparr>)
         else (Inr (JObj [(''ok'', JBool True)]), s\<lparr>world := tick n (world s)\<rparr>)),
      clock = time\<rparr>"

definition test_state :: "test_world exec_state" where
  "test_state =
     \<lparr>world = \<lparr>time = 100, calls = [], chats = 0\<rparr>,
      aiMemory = Some (new_SimpleMemory None True)\<rparr>"

text \<open>A provider that proposes one more tool call at every request.\<close>

definition looping_provider :: "test_world provider" where
  "looping_provider =
     \<lparr>chat = (\<lambda>messages opts w.
        (Inr \<lparr>response_content = None,
              toolCalls = Some [\<lparr>call_id = show_nat (chats w), name = ''get_current_state'',
                                 arguments = JObj []\<rparr>],
              response_usage = JNull, response_model = JStr ''stub''\<rparr>,
         w\<lparr>chats := chats w + 1\<rparr>))\<rparr>"

definition test_agent :: "test_world agent" where
  "test_agent =
     \<lparr>toolExecutor = test_executor, currentProvider = Some looping_provider, maxIterations = 3,
      config_temperature = 7 / 10, config_max_tokens = 0, getSystemPrompt = (\<lambda>m. ''system''),
      stringify = (\<lambda>v. ''{}''), stringify_context = (\<lambda>c. ''{}''), sha256_hex = stub_digest\<rparr>"

definition test_agent_state :: "test_world agent_state" where
  "test_agent_state = \<lparr>exec = test_state, conversationHistory = []\<rparr>"

definition no_context :: query_context where
  "no_context = \<lparr>hasFileOpen = False, currentSketchPath = [], selectedBoard = [], selectedPort = []\<rparr>"


text \<open>A provider whose answer carries three tool calls, and the state its first answer
  leaves the test agent in.\<close>

definition batch_provider :: "test_world provider" where
  "batch_provider =
     \<lparr>chat = (\<lambda>messages opts w.
        (Inr \<lparr>response_content = None,
              toolCalls = Some [\<lparr>call_id = ''a'', name = ''get_editor_code'', arguments = JObj []\<rparr>,
                                \<lparr>call_id = ''b'', name = ''list_boards'', arguments = JObj []\<rparr>,
                                \<lparr>call_id = ''c'', name = ''get_current_state'', arguments = JObj []\<rparr>],
              response_usage = JNull, response_model = JStr ''stub''\<rparr>,
         w\<lparr>chats := chats w + 1\<rparr>))\<rparr>"

definition after_chat :: "test_world agent_state" where
  "after_chat = \<lparr>exec = test_state\<lparr>world := \<lparr>time = 100, calls = [], chats = 1\<rparr>\<rparr>, conversationHistory = []\<rparr>"




text \<open>The two functions with one unconditional equation are unfolded by hand.\<close>

declare show_nat.simps [simp del]

declare tool_loop.simps [simp del]

section \<open>The memory store: lemmas\<close>

lemma find_update_first:
  "find P xs = Some x \<Longrightarrow>
     \<exists>i<length xs. P (xs ! i) \<and> (\<forall>j<i. \<not> P (xs ! j)) \<and> xs ! i = x \<and>
       update_first P f xs = xs[i := f x]"
proof (induction xs)
  case Nil
  then show ?case by simp
next
  case (Cons a xs)
  show ?case
  proof (cases "P a")
    case True
    with Cons.prems show ?thesis by (intro exI[of _ 0]) simp
  next
    case False
    with Cons.prems have "find P xs = Some x" by simp
    from Cons.IH[OF this] obtain i where i: "i < length xs" "P (xs ! i)"
      "\<forall>j<i. \<not> P (xs ! j)" "xs ! i = x" "update_first P f xs = xs[i := f x]"
      by blast
    show ?thesis
      using i False by (intro exI[of _ "Suc i"]) (auto simp: less_Suc_eq_0_disj)
  qed
qed

lemma find_update_first_Some:
  "find P xs = Some x \<Longrightarrow> P (f x) \<Longrightarrow> find P (update_first P f xs) = Some (f x)"
  by (induction xs) (auto split: if_splits)

lemma find_append_new:
  "find P xs = None \<Longrightarrow> P n \<Longrightarrow> find P (xs @ [n]) = Some n"
  by (induction xs) (auto split: if_splits)

lemma ensureLoaded_loaded [simp]: "loaded (ensureLoaded s)"
  by (simp add: ensureLoaded_def load_def)

lemma ensureLoaded_idem [simp]: "loaded s \<Longrightarrow> ensureLoaded s = s"
  by (simp add: ensureLoaded_def)

lemma save_simps [simp]: "memory (save s) = memory s" "loaded (save s) = loaded s"
  by (simp_all add: save_def)

lemma recordError_sig: "fst (recordError H E ty ctx now s) = generateSignature H E"
  by (simp add: recordError_def Let_def split: option.splits)

lemma recordError_loaded: "loaded (snd (recordError H E ty ctx now s))"
  by (simp add: recordError_def Let_def split: option.splits)

lemma recordError_has_entry:
  "\<exists>e. find (\<lambda>e. signature e = generateSignature H E)
          (errors (memory (snd (recordError H E ty ctx now s)))) = Some e"
proof (cases "find (\<lambda>e. signature e = generateSignature H E) (errors (memory (ensureLoaded s)))")
  case None
  then show ?thesis
    by (simp add: recordError_def Let_def find_append_new)
next
  case (Some x)
  then have "signature x = generateSignature H E"
    by (auto simp: find_Some_iff)
  with Some show ?thesis
    by (simp add: recordError_def Let_def find_update_first_Some)
qed

lemma recordError_again:
  assumes "loaded s"
    and "find (\<lambda>e. signature e = generateSignature H E) (errors (memory s)) = Some x"
  shows "\<exists>i<length (errors (memory s)).
           signature (errors (memory s) ! i) = generateSignature H E \<and>
           (\<forall>j<i. signature (errors (memory s) ! j) \<noteq> generateSignature H E) \<and>
           errors (memory (snd (recordError H E ty ctx now s))) =
             (errors (memory s))[i := (errors (memory s) ! i)
                \<lparr>count := count (errors (memory s) ! i) + 1, lastSeen := now\<rparr>]"
proof -
  from find_update_first[OF assms(2), of "\<lambda>e. e\<lparr>count := count e + 1, lastSeen := now\<rparr>"]
  obtain i where i: "i < length (errors (memory s))"
    "signature (errors (memory s) ! i) = generateSignature H E"
    "\<forall>j<i. signature (errors (memory s) ! j) \<noteq> generateSignature H E"
    "errors (memory s) ! i = x"
    "update_first (\<lambda>e. signature e = generateSignature H E)
       (\<lambda>e. e\<lparr>count := count e + 1, lastSeen := now\<rparr>) (errors (memory s))
       = (errors (memory s))[i := x\<lparr>count := count x + 1, lastSeen := now\<rparr>]"
    by blast
  have "errors (memory (snd (recordError H E ty ctx now s))) =
      (errors (memory s))[i := x\<lparr>count := count x + 1, lastSeen := now\<rparr>]"
    using assms i(5) by (simp add: recordError_def Let_def)
  with i show ?thesis by (intro exI[of _ i]) simp
qed

lemma generateSignature_hex:
  assumes "sha256_like H"
  shows "length (generateSignature H E) = 16 \<and> set (generateSignature H E) \<subseteq> hexdigits"
proof -
  have l: "length (H (normalize E)) = 64" and d: "set (H (normalize E)) \<subseteq> hexdigits"
    using assms by (simp_all add: sha256_like_def)
  have "set (take 16 (H (normalize E))) \<subseteq> set (H (normalize E))"
    by (rule set_take_subset)
  with d l show ?thesis by (simp add: generateSignature_def substring0_def)
qed

lemma hex_char_in: "hex_char i \<in> hexdigits"
proof -
  have "i mod 16 < length ''0123456789abcdef''" by simp
  then show ?thesis
    unfolding hex_char_def hexdigits_def by (rule nth_mem)
qed

lemma stub_digest_sha256_like: "sha256_like stub_digest"
proof -
  have "set (stub_digest x) \<subseteq> hexdigits" for x
  proof -
    have "set (stub_digest x) \<subseteq>
        set (concat (map (\<lambda>c. [hex_char ((of_char c :: nat) div 16), hex_char (of_char c)]) x)
              @ replicate 64 (CHR ''0''))"
      unfolding stub_digest_def by (rule set_take_subset)
    also have "\<dots> \<subseteq> hexdigits"
      using hex_char_in by (auto simp: hexdigits_def)
    finally show ?thesis .
  qed
  moreover have "length (stub_digest x) = 64" for x
    by (simp add: stub_digest_def)
  ultimately show ?thesis by (simp add: sha256_like_def)
qed

text \<open>The normal form that \<open>generateSignature\<close> hashes is the text's lower-cased words
  with one space between them.\<close>

lemma words_ws_Cons [simp]:
  "words_ws (c # cs) =
     (if is_space c then words_ws cs
      else if cs = [] \<or> is_space (hd cs) then [c] # words_ws cs
      else (c # hd (words_ws cs)) # tl (words_ws cs))"
  by (simp add: cons_word_def)

declare words_ws.simps(2) [simp del]

lemma collapse_whitespace_Cons:
  "collapse_whitespace (c # cs) =
     (if is_space c then
        (if cs \<noteq> [] \<and> is_space (hd cs) then collapse_whitespace cs
         else CHR '' '' # collapse_whitespace cs)
      else c # collapse_whitespace cs)"
  by (cases cs) auto

lemma words_ws_nonempty: "cs \<noteq> [] \<Longrightarrow> \<not> is_space (hd cs) \<Longrightarrow> words_ws cs \<noteq> []"
  by (cases cs) auto

lemma words_ws_empty_iff: "words_ws cs = [] \<longleftrightarrow> (\<forall>c \<in> set cs. is_space c)"
  by (induction cs) (auto simp: words_ws_nonempty)

lemma unwords_Cons_Cons: "ws \<noteq> [] \<Longrightarrow> unwords ((c # hd ws) # tl ws) = c # unwords ws"
  by (cases ws; cases "tl ws") auto

lemma unwords_single_Cons: "unwords ([c] # ws) = (if ws = [] then [c] else c # CHR '' '' # unwords ws)"
  by (cases ws) auto

lemma collapse_words:
  "collapse_whitespace t =
     (if t \<noteq> [] \<and> is_space (hd t) then '' '' else []) @ unwords (words_ws t) @
     (if t \<noteq> [] \<and> is_space (last t) \<and> words_ws t \<noteq> [] then '' '' else [])"
proof (induction t)
  case Nil
  show ?case by simp
next
  case (Cons c cs)
  show ?case
  proof (cases "cs = []")
    case True
    then show ?thesis by simp
  next
    case ne: False
    show ?thesis
    proof (cases "is_space (hd cs)")
      case True
      have "words_ws cs = [] \<Longrightarrow> is_space (last cs)"
        using ne by (simp add: words_ws_empty_iff)
      with True show ?thesis
        using ne Cons.IH
        by (auto simp: collapse_whitespace_Cons unwords_single_Cons simp del: collapse_whitespace.simps)
    next
      case False
      then have "words_ws cs \<noteq> []"
        using ne by (simp add: words_ws_nonempty)
      then show ?thesis
        using ne False Cons.IH
        by (simp add: collapse_whitespace_Cons unwords_Cons_Cons del: collapse_whitespace.simps)
    qed
  qed
qed

lemma words_ws_word: "w \<in> set (words_ws t) \<Longrightarrow> w \<noteq> [] \<and> (\<forall>c \<in> set w. \<not> is_space c)"
proof (induction t arbitrary: w)
  case Nil
  then show ?case by simp
next
  case (Cons c cs)
  show ?case
  proof (cases "is_space c")
    case True
    with Cons show ?thesis by simp
  next
    case nc: False
    show ?thesis
    proof (cases "cs = [] \<or> is_space (hd cs)")
      case True
      with Cons nc show ?thesis by auto
    next
      case False
      then have ne: "words_ws cs \<noteq> []"
        by (simp add: words_ws_nonempty)
      then have hd: "hd (words_ws cs) \<in> set (words_ws cs)" and
        tl: "set (tl (words_ws cs)) \<subseteq> set (words_ws cs)"
        by (auto intro: list.set_sel)
      from Cons.prems False nc have "w = c # hd (words_ws cs) \<or> w \<in> set (tl (words_ws cs))"
        by simp
      then show ?thesis
        using Cons.IH hd tl nc by auto
    qed
  qed
qed

lemma unwords_ends:
  assumes "\<forall>w \<in> set ws. w \<noteq> [] \<and> (\<forall>c \<in> set w. \<not> is_space c)" and "ws \<noteq> []"
  shows "unwords ws \<noteq> [] \<and> \<not> is_space (hd (unwords ws)) \<and> \<not> is_space (last (unwords ws))"
  using assms
proof (induction ws rule: unwords.induct)
  case 1
  then show ?case by simp
next
  case (2 w)
  then show ?case by (cases w) (auto simp: last_in_set)
next
  case (3 w v vs)
  then show ?case by (cases w) auto
qed

lemma trim_padded:
  assumes "u = [] \<or> (\<not> is_space (hd u) \<and> \<not> is_space (last u))"
    and "set p \<subseteq> {CHR '' ''}" and "set q \<subseteq> {CHR '' ''}"
  shows "trim (p @ u @ q) = u"
proof -
  have sp: "is_space (CHR '' '')"
    by (simp add: is_space_def)
  have p: "\<forall>c \<in> set p. is_space c" and q: "\<forall>c \<in> set q. is_space c"
    using assms(2,3) sp by auto
  show ?thesis
  proof (cases "u = []")
    case True
    have d: "dropWhile is_space (p @ q) = []"
      using p q by (simp add: dropWhile_eq_Nil_conv)
    have "trim (p @ q) = []"
      unfolding trim_def d by simp
    with True show ?thesis by simp
  next
    case False
    with assms(1) have h: "\<not> is_space (hd u)" and l: "\<not> is_space (last u)"
      by auto
    have 1: "dropWhile is_space (p @ u @ q) = u @ q"
      using p h False by (cases u) (simp_all add: dropWhile_append)
    have "rev (u @ q) = rev q @ rev u"
      by simp
    moreover have "dropWhile is_space (rev q @ rev u) = rev u"
      using q l False by (cases "rev u") (auto simp: dropWhile_append last_rev hd_rev)
    ultimately show ?thesis
      using 1 by (simp add: trim_def)
  qed
qed

lemma normalize_words: "normalize text = unwords (words_ws (toLowerCase text))"
proof -
  let ?t = "toLowerCase text"
  have u: "unwords (words_ws ?t) = [] \<or>
      (\<not> is_space (hd (unwords (words_ws ?t))) \<and> \<not> is_space (last (unwords (words_ws ?t))))"
  proof (cases "words_ws ?t = []")
    case True
    then show ?thesis by simp
  next
    case False
    with unwords_ends[of "words_ws ?t"] words_ws_word[of _ ?t] show ?thesis by blast
  qed
  show ?thesis
    unfolding normalize_def
    by (subst collapse_words) (rule trim_padded[OF u], auto)
qed

lemma is_space_toLowerCase_char [simp]: "is_space (toLowerCase_char c) = is_space c"
proof -
  have "of_char (char_of (of_char c + 32 :: nat)) = ((of_char c + 32) mod 256 :: nat)"
    by simp
  then show ?thesis
    by (auto simp: is_space_def toLowerCase_char_def Let_def)
qed

lemma words_ws_toLowerCase: "words_ws (toLowerCase t) = map toLowerCase (words_ws t)"
proof (induction t)
  case Nil
  show ?case by (simp add: toLowerCase_def)
next
  case (Cons c cs)
  have hd: "cs \<noteq> [] \<Longrightarrow> is_space (hd (map toLowerCase_char cs)) = is_space (hd cs)"
    by (cases cs) simp_all
  show ?case
  proof (cases "cs = [] \<or> is_space (hd cs) \<or> is_space c")
    case True
    then show ?thesis
      using Cons hd by (auto simp: toLowerCase_def)
  next
    case False
    then have "words_ws cs \<noteq> []"
      by (simp add: words_ws_nonempty)
    then show ?thesis
      using Cons hd False by (auto simp: toLowerCase_def hd_map map_tl)
  qed
qed

lemma same_letter_toLowerCase_char: "same_letter c d \<Longrightarrow> toLowerCase_char c = toLowerCase_char d"
proof -
  assume s: "same_letter c d"
  have r: "char_of (of_char x + 32 :: nat) = y" if "(of_char y :: nat) = of_char x + 32" for x y :: char
  proof -
    have "char_of (of_char y :: nat) = y"
      by simp
    with that show ?thesis
      by simp
  qed
  from s show ?thesis
    unfolding same_letter_def toLowerCase_char_def Let_def
    by (elim disjE) (auto simp: r)
qed

lemma same_word_toLowerCase: "list_all2 same_letter v w \<Longrightarrow> toLowerCase v = toLowerCase w"
  unfolding toLowerCase_def
  by (induction rule: list_all2_induct) (simp_all add: same_letter_toLowerCase_char)

lemma same_text_normalize: "same_text a b \<Longrightarrow> normalize a = normalize b"
proof -
  assume "same_text a b"
  then have "list_all2 (list_all2 same_letter) (words_ws a) (words_ws b)"
    by (simp add: same_text_def)
  then have "map toLowerCase (words_ws a) = map toLowerCase (words_ws b)"
    by (induction rule: list_all2_induct) (simp_all add: same_word_toLowerCase)
  then show ?thesis
    by (simp add: normalize_words words_ws_toLowerCase)
qed

lemma same_text_refl: "same_text a a"
  by (simp add: same_text_def same_letter_def list_all2_same)

text \<open>
  C6.  For every error text \<open>E\<close>, recording it and then a text that is the same up to
  letter case and whitespace (\<open>E\<close> itself is one) returns the same signature both times,
  sixteen hexadecimal digits.  The first call appends an entry with \<open>count\<close> 1 when the
  store has none with that signature; the second call creates no entry: it adds one to the
  \<open>count\<close> of the first entry with that signature and sets its \<open>lastSeen\<close>.  The two
  texts have the same normal form, the lower-cased words of the text with one space between
  them, and every text with that normal form has that signature too.
\<close>

theorem recordError_twice:
  assumes "sha256_like H" and "same_text E' E"
  shows "case recordError H E ty1 c1 t1 s of (h1, s1) \<Rightarrow>
         case recordError H E' ty2 c2 t2 s1 of (h2, s2) \<Rightarrow>
           h2 = h1 \<and> length h1 = 16 \<and> set h1 \<subseteq> hexdigits \<and>
           (find (\<lambda>e. signature e = h1) (errors (memory (ensureLoaded s))) = None \<longrightarrow>
              errors (memory s1) = errors (memory (ensureLoaded s)) @
                [\<lparr>error_id = t1, signature = h1, message = E, errorType = ty1,
                  error_context = default_null c1, count = 1, firstSeen = t1, lastSeen = t1\<rparr>]) \<and>
           length (errors (memory s2)) = length (errors (memory s1)) \<and>
           (\<exists>i<length (errors (memory s1)).
              signature (errors (memory s1) ! i) = h1 \<and>
              (\<forall>j<i. signature (errors (memory s1) ! j) \<noteq> h1) \<and>
              errors (memory s2) =
                (errors (memory s1))[i := (errors (memory s1) ! i)
                   \<lparr>count := count (errors (memory s1) ! i) + 1, lastSeen := t2\<rparr>]) \<and>
           same_text E E \<and>
           normalize E' = normalize E \<and>
           normalize E = unwords (words_ws (toLowerCase E)) \<and>
           (\<forall>E''. normalize E'' = normalize E \<longrightarrow> generateSignature H E'' = h1)"
proof -
  obtain h1 s1 where r1: "recordError H E ty1 c1 t1 s = (h1, s1)"
    by (cases "recordError H E ty1 c1 t1 s")
  obtain h2 s2 where r2: "recordError H E' ty2 c2 t2 s1 = (h2, s2)"
    by (cases "recordError H E' ty2 c2 t2 s1")
  have nf: "normalize E' = normalize E"
    using assms(2) by (rule same_text_normalize)
  have sg: "generateSignature H E' = generateSignature H E"
    by (simp add: generateSignature_def nf)
  have h1: "h1 = generateSignature H E"
    using recordError_sig[of H E ty1 c1 t1 s] r1 by simp
  have h2: "h2 = generateSignature H E"
    using recordError_sig[of H E' ty2 c2 t2 s1] r2 sg by simp
  have l1: "loaded s1"
    using recordError_loaded[of H E ty1 c1 t1 s] r1 by simp
  obtain x where x: "find (\<lambda>e. signature e = generateSignature H E') (errors (memory s1)) = Some x"
    using recordError_has_entry[of H E ty1 c1 t1 s] r1 sg by auto
  from recordError_again[OF l1 x, of ty2 c2 t2] r2
  obtain i where i: "i < length (errors (memory s1))"
    "signature (errors (memory s1) ! i) = generateSignature H E"
    "\<forall>j<i. signature (errors (memory s1) ! j) \<noteq> generateSignature H E"
    "errors (memory s2) = (errors (memory s1))[i := (errors (memory s1) ! i)
       \<lparr>count := count (errors (memory s1) ! i) + 1, lastSeen := t2\<rparr>]"
    unfolding sg by auto
  have len: "length (errors (memory s2)) = length (errors (memory s1))"
    using i(4) by simp
  have coll: "\<forall>E''. normalize E'' = normalize E \<longrightarrow> generateSignature H E'' = h1"
    by (simp add: h1 generateSignature_def)
  have ex: "\<exists>i<length (errors (memory s1)).
              signature (errors (memory s1) ! i) = h1 \<and>
              (\<forall>j<i. signature (errors (memory s1) ! j) \<noteq> h1) \<and>
              errors (memory s2) =
                (errors (memory s1))[i := (errors (memory s1) ! i)
                   \<lparr>count := count (errors (memory s1) ! i) + 1, lastSeen := t2\<rparr>]"
    using i unfolding h1 by (intro exI[of _ i]) simp
  have hex: "length h1 = 16 \<and> set h1 \<subseteq> hexdigits"
    using generateSignature_hex[OF assms(1), of E] h1 by simp
  have words: "normalize E = unwords (words_ws (toLowerCase E))"
    by (rule normalize_words)
  have fresh: "find (\<lambda>e. signature e = h1) (errors (memory (ensureLoaded s))) = None \<longrightarrow>
              errors (memory s1) = errors (memory (ensureLoaded s)) @
                [\<lparr>error_id = t1, signature = h1, message = E, errorType = ty1,
                  error_context = default_null c1, count = 1, firstSeen = t1, lastSeen = t1\<rparr>]"
    using r1 unfolding h1 by (auto simp: recordError_def Let_def)
  show ?thesis
    unfolding r1 r2 prod.case
    by (intro conjI) (simp add: h2 h1, simp add: hex, simp add: hex, rule fresh, rule len, rule ex,
        rule same_text_refl, rule nf, rule words, rule coll)
qed

lemma recordError_twice_example:
  "same_text ''  AVRDUDE:  Not in   sync '' ''avrdude: not in sync'' \<and>
   normalize ''  AVRDUDE:  Not in   sync '' = ''avrdude: not in sync'' \<and>
   fst (recordError stub_digest ''avrdude: not in sync'' None JUndefined 10 (new_SimpleMemory None True))
     = ''617672647564653a'' \<and>
   errors (memory (snd (recordError stub_digest ''avrdude: not in sync'' None JUndefined 10 (new_SimpleMemory None True)))) =
     [\<lparr>error_id = 10, signature = ''617672647564653a'', message = ''avrdude: not in sync'',
       errorType = None, error_context = JNull, count = 1, firstSeen = 10, lastSeen = 10\<rparr>] \<and>
   map count (errors (memory (snd (recordError stub_digest ''  AVRDUDE:  Not in   sync '' None JUndefined 20
     (snd (recordError stub_digest ''avrdude: not in sync'' None JUndefined 10 (new_SimpleMemory None True)))))))
     = [2] \<and>
   map lastSeen (errors (memory (snd (recordError stub_digest ''  AVRDUDE:  Not in   sync '' None JUndefined 20
     (snd (recordError stub_digest ''avrdude: not in sync'' None JUndefined 10 (new_SimpleMemory None True)))))))
     = [20] \<and>
   map message (errors (memory (snd (recordError stub_digest ''  AVRDUDE:  Not in   sync '' None JUndefined 20
     (snd (recordError stub_digest ''avrdude: not in sync'' None JUndefined 10 (new_SimpleMemory None True)))))))
     = [''avrdude: not in sync'']"
  by code_simp

theorem recordError_twice_witness:
  "sha256_like stub_digest \<and>
   same_text ''  AVRDUDE:  Not in   sync '' ''avrdude: not in sync'' \<and>
   normalize ''  AVRDUDE:  Not in   sync '' = ''avrdude: not in sync'' \<and>
   fst (recordError stub_digest ''avrdude: not in sync'' None JUndefined 10 (new_SimpleMemory None True))
     = ''617672647564653a'' \<and>
   fst (recordError stub_digest ''  AVRDUDE:  Not in   sync '' None JUndefined 20
     (snd (recordError stub_digest ''avrdude: not in sync'' None JUndefined 10 (new_SimpleMemory None True))))
     = fst (recordError stub_digest ''avrdude: not in sync'' None JUndefined 10 (new_SimpleMemory None True)) \<and>
   errors (memory (snd (recordError stub_digest ''avrdude: not in sync'' None JUndefined 10 (new_SimpleMemory None True)))) =
     [\<lparr>error_id = 10, signature = ''617672647564653a'', message = ''avrdude: not in sync'',
       errorType = None, error_context = JNull, count = 1, firstSeen = 10, lastSeen = 10\<rparr>] \<and>
   map count (errors (memory (snd (recordError stub_digest ''  AVRDUDE:  Not in   sync '' None JUndefined 20
     (snd (recordError stub_digest ''avrdude: not in sync'' None JUndefined 10 (new_SimpleMemory None True)))))))
     = [2] \<and>
   map lastSeen (errors (memory (snd (recordError stub_digest ''  AVRDUDE:  Not in   sync '' None JUndefined 20
     (snd (recordError stub_digest ''avrdude: not in sync'' None JUndefined 10 (new_SimpleMemory None True)))))))
     = [20] \<and>
   map message (errors (memory (snd (recordError stub_digest ''  AVRDUDE:  Not in   sync '' None JUndefined 20
     (snd (recordError stub_digest ''avrdude: not in sync'' None JUndefined 10 (new_SimpleMemory None True)))))))
     = [''avrdude: not in sync'']"
proof -
  have st: "same_text ''  AVRDUDE:  Not in   sync '' ''avrdude: not in sync''"
    using recordError_twice_example by simp
  note t = recordError_twice[OF stub_digest_sha256_like st, where ?ty1.0 = None and ?c1.0 = JUndefined
      and ?t1.0 = 10 and s = "new_SimpleMemory None True" and ?ty2.0 = None and ?c2.0 = JUndefined
      and ?t2.0 = 20]
  from t have "fst (recordError stub_digest ''  AVRDUDE:  Not in   sync '' None JUndefined 20
     (snd (recordError stub_digest ''avrdude: not in sync'' None JUndefined 10 (new_SimpleMemory None True))))
     = fst (recordError stub_digest ''avrdude: not in sync'' None JUndefined 10 (new_SimpleMemory None True))"
    by (simp only: split_beta)
  then show ?thesis
    using recordError_twice_example stub_digest_sha256_like by simp
qed

section \<open>The tool executor: validation\<close>

lemma check_required_obj:
  "check_required ps (JObj kvs) =
     (case find (\<lambda>p. p \<notin> fst ` set kvs) ps of
        None \<Rightarrow> Inr Valid
      | Some p \<Rightarrow> Inr (Invalid (''Missing required parameter: '' @ p)))"
  by (induction ps) auto

lemma check_required_resolves:
  "(case a of JObj kvs \<Rightarrow> True | JArr xs \<Rightarrow> True | _ \<Rightarrow> False) \<Longrightarrow>
     \<exists>v. check_required ps a = Inr v"
  by (induction ps) (auto split: jsval.splits)

lemma validate_resolves:
  "has_arguments_object tc \<Longrightarrow> \<exists>v. validateToolCall tc = Inr v"
  using check_required_resolves[of "arguments tc"]
  by (auto simp: validateToolCall_def has_arguments_object_def split: option.splits)

lemma execute_resolves_valid:
  "validateToolCall tc = Inr v \<Longrightarrow> \<exists>r. fst (execute ex tc s) = Inr r"
  by (cases v) (auto simp: execute_def split: prod.splits sum.splits option.splits)

text \<open>Whatever the handlers do, a call that carries an arguments object gets a result
  back.\<close>

lemma execute_resolves:
  "has_arguments_object tc \<Longrightarrow> \<exists>r. fst (execute ex tc s) = Inr r"
  using validate_resolves execute_resolves_valid by blast

lemma getTool_connect_serial:
  "getTool ''connect_serial'' = Some \<lparr>tool_name = ''connect_serial'', required = Some [''port'']\<rparr>"
  by (simp add: getTool_def TOOL_SCHEMA_def)

text \<open>
  C3.  The claim is that \<open>execute\<close> resolves with a result for every tool call.  The call
  to \<open>validateToolCall\<close> stands before the \<open>try\<close>: for a call that names a tool with
  required parameters and has no \<open>arguments\<close> property, \<open>'port' in undefined\<close> throws
  there, and \<open>execute\<close> rejects with that \<open>TypeError\<close>, whatever the executor and its
  state.
\<close>

theorem execute_rejects_without_arguments:
  "execute ex \<lparr>call_id = i, name = ''connect_serial'', arguments = JUndefined\<rparr> s =
     (Inl (TypeError ''Cannot use in operator to search for port''), s)"
  by (simp add: execute_def validateToolCall_def getTool_connect_serial)

text \<open>
  C5.  For every tool call whose name is not in the catalog, or whose arguments object
  lacks a required parameter of the tool it names, \<open>execute\<close> returns a result with
  \<open>success: false\<close> and an error message, leaves the state of the world and of the
  memory store as it was, and does the same for every executor: no collaborator takes
  part.
\<close>

theorem validation_gate:
  assumes "getTool (name tc) = None \<or>
           (\<exists>t ps kvs p. getTool (name tc) = Some t \<and> required t = Some ps \<and>
              arguments tc = JObj kvs \<and> p \<in> set ps \<and> p \<notin> fst ` set kvs)"
  shows "\<exists>msg. execute ex tc s =
            (Inr \<lparr>success = False, tool = name tc, result = None, error = Some msg,
                  executionTime = None\<rparr>, s)
          \<and> (\<forall>ex'. execute ex' tc s = execute ex tc s)"
proof -
  have "\<exists>msg. validateToolCall tc = Inr (Invalid msg)"
    using assms
  proof
    assume "getTool (name tc) = None"
    then show ?thesis by (simp add: validateToolCall_def)
  next
    assume "\<exists>t ps kvs p. getTool (name tc) = Some t \<and> required t = Some ps \<and>
              arguments tc = JObj kvs \<and> p \<in> set ps \<and> p \<notin> fst ` set kvs"
    then obtain t ps kvs p where h: "getTool (name tc) = Some t" "required t = Some ps"
      "arguments tc = JObj kvs" "p \<in> set ps" "p \<notin> fst ` set kvs"
      by blast
    from h(4,5) obtain q where "find (\<lambda>p. p \<notin> fst ` set kvs) ps = Some q"
      by (cases "find (\<lambda>p. p \<notin> fst ` set kvs) ps") (auto simp: find_None_iff)
    with h show ?thesis
      by (simp add: validateToolCall_def check_required_obj)
  qed
  then obtain msg where "validateToolCall tc = Inr (Invalid msg)"
    by blast
  then show ?thesis by (simp add: execute_def)
qed

theorem validation_gate_witness:
  "getTool ''connect_serial'' = Some \<lparr>tool_name = ''connect_serial'', required = Some [''port'']\<rparr> \<and>
   ''port'' \<notin> fst ` set [(''baudRate'', JNum 9600)] \<and>
   execute test_executor
      \<lparr>call_id = ''call_1'', name = ''connect_serial'', arguments = JObj [(''baudRate'', JNum 9600)]\<rparr>
      test_state =
     (Inr \<lparr>success = False, tool = ''connect_serial'', result = None,
           error = Some ''Missing required parameter: port'', executionTime = None\<rparr>, test_state) \<and>
   getTool ''format_disk'' = None \<and>
   execute test_executor \<lparr>call_id = ''call_2'', name = ''format_disk'', arguments = JObj []\<rparr> test_state =
     (Inr \<lparr>success = False, tool = ''format_disk'', result = None,
           error = Some ''Unknown tool: format_disk'', executionTime = None\<rparr>, test_state)"
proof -
  let ?tc = "\<lparr>call_id = ''call_1'', name = ''connect_serial'', arguments = JObj [(''baudRate'', JNum 9600)]\<rparr>"
  let ?tc2 = "\<lparr>call_id = ''call_2'', name = ''format_disk'', arguments = JObj []\<rparr>"
  have g2: "getTool ''format_disk'' = None"
    by (simp add: getTool_def TOOL_SCHEMA_def)
  have h: "getTool (name ?tc) = None \<or>
           (\<exists>t ps kvs p. getTool (name ?tc) = Some t \<and> required t = Some ps \<and>
              arguments ?tc = JObj kvs \<and> p \<in> set ps \<and> p \<notin> fst ` set kvs)"
    by (simp add: getTool_connect_serial)
  have h2: "getTool (name ?tc2) = None \<or>
           (\<exists>t ps kvs p. getTool (name ?tc2) = Some t \<and> required t = Some ps \<and>
              arguments ?tc2 = JObj kvs \<and> p \<in> set ps \<and> p \<notin> fst ` set kvs)"
    by (simp add: g2)
  from validation_gate[OF h, of test_executor test_state]
  have e1: "execute test_executor ?tc test_state =
     (Inr \<lparr>success = False, tool = ''connect_serial'', result = None,
           error = Some ''Missing required parameter: port'', executionTime = None\<rparr>, test_state)"
    by (simp add: execute_def validateToolCall_def getTool_connect_serial)
  from validation_gate[OF h2, of test_executor test_state]
  have e2: "execute test_executor ?tc2 test_state =
     (Inr \<lparr>success = False, tool = ''format_disk'', result = None,
           error = Some ''Unknown tool: format_disk'', executionTime = None\<rparr>, test_state)"
    by (simp add: execute_def validateToolCall_def g2)
  show ?thesis
    using e1 e2 g2 getTool_connect_serial by simp
qed

section \<open>The tool executor: dispatch and bookkeeping\<close>

lemma getTool_upload_sketch:
  "getTool ''upload_sketch'' = Some \<lparr>tool_name = ''upload_sketch'', required = Some []\<rparr>"
  by (simp add: getTool_def TOOL_SCHEMA_def)

lemma getTool_compile_sketch:
  "getTool ''compile_sketch'' = Some \<lparr>tool_name = ''compile_sketch'', required = Some []\<rparr>"
  by (simp add: getTool_def TOOL_SCHEMA_def)


lemma getTool_get_current_state:
  "getTool ''get_current_state'' = Some \<lparr>tool_name = ''get_current_state'', required = None\<rparr>"
  by (simp add: getTool_def TOOL_SCHEMA_def)

lemma getTool_get_editor_code:
  "getTool ''get_editor_code'' = Some \<lparr>tool_name = ''get_editor_code'', required = None\<rparr>"
  by (simp add: getTool_def TOOL_SCHEMA_def)

lemma execute_handled:
  assumes "validateToolCall tc = Inr Valid" and "dispatch ex tc s = (Inr (Some r), s1)"
    and "r \<noteq> JUndefined" and "r \<noteq> JNull"
  shows "execute ex tc s =
     (Inr \<lparr>success = True, tool = name tc, result = Some r, error = None, executionTime = None\<rparr>,
      case aiMemory s1 of
        None \<Rightarrow> s1
      | Some m \<Rightarrow> s1\<lparr>aiMemory := Some (recordExecution (name tc) (arguments tc)
                       (get_prop r ''success'' \<noteq> JBool False) (get_prop r ''error'')
                       (clock ex (world s1)) m)\<rparr>)"
  using assms
  by (simp add: execute_def bindE_def returnE_def record_outcome_def read_prop_def split: option.splits)


text \<open>
  C1.  The claim is that \<open>execute\<close> answers an \<open>upload_sketch\<close> (or
  \<open>compile_sketch\<close>) call with \<open>success: false\<close> and an actionable message when no
  sketch path is left after the lookup in the editor.  The handler does return
  \<open>{success: false, error: 'No sketch open. ...'}\<close>, but \<open>execute\<close> wraps every value a
  handler returns into \<open>{success: true, tool, result}\<close>: the result the caller gets has
  \<open>success: true\<close> and no \<open>error\<close>, and the failure sits one level down in \<open>result\<close>.
\<close>

theorem unresolved_sketch_reported_as_success:
  "(name tc = ''upload_sketch'' \<longrightarrow>
      resolveUploadParams ex (arguments tc) (world s) = (Inr (sketchPath, boardFQBN, port), w) \<longrightarrow>
      \<not> truthy sketchPath \<longrightarrow>
      fst (execute ex tc s) =
        Inr \<lparr>success = True, tool = ''upload_sketch'',
             result = Some (JObj [(''success'', JBool False),
               (''error'', JStr ''No sketch open. Please open a .ino file first (Open Sketch in the sidebar).'')]),
             error = None, executionTime = None\<rparr>) \<and>
   (name tc = ''compile_sketch'' \<longrightarrow>
      resolveCompileParams ex (arguments tc) (world s) = (Inr (sketchPath, boardFQBN), w) \<longrightarrow>
      \<not> truthy sketchPath \<longrightarrow>
      fst (execute ex tc s) =
        Inr \<lparr>success = True, tool = ''compile_sketch'',
             result = Some (JObj [(''success'', JBool False),
               (''error'', JStr ''No sketch open. Please open a .ino file first (Open Sketch in the sidebar).'')]),
             error = None, executionTime = None\<rparr>)"
proof (intro conjI impI)
  assume n: "name tc = ''upload_sketch''"
    and r: "resolveUploadParams ex (arguments tc) (world s) = (Inr (sketchPath, boardFQBN, port), w)"
    and t: "\<not> truthy sketchPath"
  have v: "validateToolCall tc = Inr Valid"
    using n by (simp add: validateToolCall_def getTool_upload_sketch)
  have d: "dispatch ex tc s = (Inr (Some (JObj [(''success'', JBool False),
               (''error'', JStr ''No sketch open. Please open a .ino file first (Open Sketch in the sidebar).'')])),
            s\<lparr>world := w\<rparr>)"
    using n r t
    by (simp add: dispatch_def executeUpload_def bindE_def returnE_def on_world_def)
  show "fst (execute ex tc s) =
        Inr \<lparr>success = True, tool = ''upload_sketch'',
             result = Some (JObj [(''success'', JBool False),
               (''error'', JStr ''No sketch open. Please open a .ino file first (Open Sketch in the sidebar).'')]),
             error = None, executionTime = None\<rparr>"
    using execute_handled[OF v d] n by simp
next
  assume n: "name tc = ''compile_sketch''"
    and r: "resolveCompileParams ex (arguments tc) (world s) = (Inr (sketchPath, boardFQBN), w)"
    and t: "\<not> truthy sketchPath"
  have v: "validateToolCall tc = Inr Valid"
    using n by (simp add: validateToolCall_def getTool_compile_sketch)
  have d: "dispatch ex tc s = (Inr (Some (JObj [(''success'', JBool False),
               (''error'', JStr ''No sketch open. Please open a .ino file first (Open Sketch in the sidebar).'')])),
            s\<lparr>world := w\<rparr>)"
    using n r t
    by (simp add: dispatch_def executeCompile_def bindE_def returnE_def on_world_def)
  show "fst (execute ex tc s) =
        Inr \<lparr>success = True, tool = ''compile_sketch'',
             result = Some (JObj [(''success'', JBool False),
               (''error'', JStr ''No sketch open. Please open a .ino file first (Open Sketch in the sidebar).'')]),
             error = None, executionTime = None\<rparr>"
    using execute_handled[OF v d] n by simp
qed

lemma resolveUpload_idle:
  "resolveUploadParams test_executor (JObj []) (world test_state) =
     (Inr (JStr [], JStr [], JStr []), world test_state)"
  by (simp add: resolveUploadParams_def default_args_def arg_trimmed_def read_prop_def
      liftE_def bindE_def returnE_def test_executor_def idle_ui_def resolve_from_ui_def)

lemma resolveCompile_idle:
  "resolveCompileParams test_executor (JObj []) (world test_state) =
     (Inr (JStr [], JStr []), world test_state)"
  by (simp add: resolveCompileParams_def default_args_def arg_trimmed_def read_prop_def
      liftE_def bindE_def returnE_def test_executor_def idle_ui_def resolve_from_ui_def)

theorem unresolved_sketch_reported_as_success_witness:
  "resolveUploadParams test_executor (JObj []) (world test_state) =
     (Inr (JStr [], JStr [], JStr []), world test_state) \<and>
   \<not> truthy (JStr []) \<and>
   fst (execute test_executor \<lparr>call_id = ''call_1'', name = ''upload_sketch'', arguments = JObj []\<rparr> test_state) =
     Inr \<lparr>success = True, tool = ''upload_sketch'',
          result = Some (JObj [(''success'', JBool False),
            (''error'', JStr ''No sketch open. Please open a .ino file first (Open Sketch in the sidebar).'')]),
          error = None, executionTime = None\<rparr> \<and>
   resolveCompileParams test_executor (JObj []) (world test_state) =
     (Inr (JStr [], JStr []), world test_state) \<and>
   fst (execute test_executor \<lparr>call_id = ''call_2'', name = ''compile_sketch'', arguments = JObj []\<rparr> test_state) =
     Inr \<lparr>success = True, tool = ''compile_sketch'',
          result = Some (JObj [(''success'', JBool False),
            (''error'', JStr ''No sketch open. Please open a .ino file first (Open Sketch in the sidebar).'')]),
          error = None, executionTime = None\<rparr>"
  using unresolved_sketch_reported_as_success[where
      tc = "\<lparr>call_id = ''call_1'', name = ''upload_sketch'', arguments = JObj []\<rparr>"
      and ex = test_executor and s = test_state and sketchPath = "JStr []" and boardFQBN = "JStr []"
      and port = "JStr []" and w = "world test_state"]
    unresolved_sketch_reported_as_success[where
      tc = "\<lparr>call_id = ''call_2'', name = ''compile_sketch'', arguments = JObj []\<rparr>"
      and ex = test_executor and s = test_state and sketchPath = "JStr []" and boardFQBN = "JStr []"
      and w = "world test_state"]
    resolveUpload_idle resolveCompile_idle
  by simp

lemma recordExecution_last:
  "executions (memory (recordExecution n a ok err now m)) \<noteq> [] \<and>
   last (executions (memory (recordExecution n a ok err now m))) =
     \<lparr>exec_tool = n, exec_args = a, exec_success = ok,
      exec_error = default_null err, timestamp = now\<rparr>"
  by (simp add: recordExecution_def Let_def)

lemma recordExecution_window:
  "executions (memory (recordExecution n a ok err now m)) =
     (let ex = executions (memory (ensureLoaded m)) @
                 [\<lparr>exec_tool = n, exec_args = a, exec_success = ok,
                   exec_error = default_null err, timestamp = now\<rparr>]
      in if length ex > 100 then drop (length ex - 100) ex else ex)"
  by (simp add: recordExecution_def Let_def)

lemma run_toolCalls_single:
  assumes "on_exec (execute (toolExecutor ag) tc) st = (Inr r0, st')"
  shows "run_toolCalls ag [tc] ms rs st =
     (Inr (ms @ [tool_message ag tc (timed ag st st' r0)], rs @ [timed ag st st' r0]), st')"
  using assms by simp

text \<open>
  When a call passes validation and its handler returns an object \<open>r\<close>, \<open>execute\<close>
  appends the outcome \<open>{tool, args, success, error, timestamp}\<close> to the log of the memory
  store, with \<open>success\<close> false exactly when \<open>r.success\<close> is \<open>false\<close>.  The outcome
  holds no execution time: the agent measures the time around \<open>execute\<close> and puts it into
  the result of the call, in \<open>toolResults\<close> and in the tool message.
\<close>

lemma returned_execution_is_logged:
  assumes "validateToolCall tc = Inr Valid"
    and "dispatch ex tc s = (Inr (Some r), s1)"
    and "r \<noteq> JUndefined" and "r \<noteq> JNull"
    and "aiMemory s1 = Some m"
  shows "(\<exists>m'. execute ex tc s =
            (Inr \<lparr>success = True, tool = name tc, result = Some r, error = None,
                  executionTime = None\<rparr>, s1\<lparr>aiMemory := Some m'\<rparr>) \<and>
          executions (memory m') \<noteq> [] \<and>
          last (executions (memory m')) =
            \<lparr>exec_tool = name tc, exec_args = arguments tc,
             exec_success = (get_prop r ''success'' \<noteq> JBool False),
             exec_error = default_null (get_prop r ''error''),
             timestamp = clock ex (world s1)\<rparr>) \<and>
         (\<forall>ag st r0 st' ms rs.
            on_exec (execute (toolExecutor ag) tc) st = (Inr r0, st') \<longrightarrow>
            run_toolCalls ag [tc] ms rs st =
              (Inr (ms @ [tool_message ag tc (timed ag st st' r0)], rs @ [timed ag st st' r0]), st') \<and>
            executionTime (timed ag st st' r0) =
              Some (int (clock (toolExecutor ag) (world (exec st')))
                    - int (clock (toolExecutor ag) (world (exec st)))))"
proof (intro conjI allI impI)
  let ?m' = "recordExecution (name tc) (arguments tc) (get_prop r ''success'' \<noteq> JBool False)
               (get_prop r ''error'') (clock ex (world s1)) m"
  have "execute ex tc s =
      (Inr \<lparr>success = True, tool = name tc, result = Some r, error = None, executionTime = None\<rparr>,
       s1\<lparr>aiMemory := Some ?m'\<rparr>)"
    using execute_handled[OF assms(1-4)] assms(5) by simp
  then show "\<exists>m'. execute ex tc s =
            (Inr \<lparr>success = True, tool = name tc, result = Some r, error = None,
                  executionTime = None\<rparr>, s1\<lparr>aiMemory := Some m'\<rparr>) \<and>
          executions (memory m') \<noteq> [] \<and>
          last (executions (memory m')) =
            \<lparr>exec_tool = name tc, exec_args = arguments tc,
             exec_success = (get_prop r ''success'' \<noteq> JBool False),
             exec_error = default_null (get_prop r ''error''),
             timestamp = clock ex (world s1)\<rparr>"
    using recordExecution_last[of "name tc" "arguments tc" "get_prop r ''success'' \<noteq> JBool False"
        "get_prop r ''error''" "clock ex (world s1)" m]
    by (intro exI[of _ ?m']) simp
next
  fix ag :: "'b agent" and st r0 st' ms rs
  assume "on_exec (execute (toolExecutor ag) tc) st = (Inr r0, st')"
  then show "run_toolCalls ag [tc] ms rs st =
              (Inr (ms @ [tool_message ag tc (timed ag st st' r0)], rs @ [timed ag st st' r0]), st')"
    by (rule run_toolCalls_single)
next
  fix ag :: "'b agent" and st r0 st' ms rs
  show "executionTime (timed ag st st' r0) =
              Some (int (clock (toolExecutor ag) (world (exec st')))
                    - int (clock (toolExecutor ag) (world (exec st))))"
    by (simp add: timed_def)
qed

lemma returned_execution_is_logged_example:
  "validateToolCall \<lparr>call_id = ''call_1'', name = ''get_current_state'', arguments = JObj []\<rparr> = Inr Valid \<and>
   dispatch test_executor \<lparr>call_id = ''call_1'', name = ''get_current_state'', arguments = JObj []\<rparr> test_state =
     (Inr (Some (JObj [(''ok'', JBool True)])),
      test_state\<lparr>world := tick ''get_current_state'' (world test_state)\<rparr>) \<and>
   last (executions (memory (the (aiMemory (snd (execute test_executor
      \<lparr>call_id = ''call_1'', name = ''get_current_state'', arguments = JObj []\<rparr> test_state)))))) =
     \<lparr>exec_tool = ''get_current_state'', exec_args = JObj [], exec_success = True,
      exec_error = JNull, timestamp = 107\<rparr> \<and>
   map executionTime (snd (projr (fst (run_toolCalls test_agent
      [\<lparr>call_id = ''call_1'', name = ''get_current_state'', arguments = JObj []\<rparr>] [] []
      test_agent_state)))) = [Some 7]"
proof -
  let ?tc = "\<lparr>call_id = ''call_1'', name = ''get_current_state'', arguments = JObj []\<rparr>"
  let ?s1 = "test_state\<lparr>world := tick ''get_current_state'' (world test_state)\<rparr>"
  have v: "validateToolCall ?tc = Inr Valid"
    by (simp add: validateToolCall_def getTool_get_current_state)
  have d: "dispatch test_executor ?tc test_state = (Inr (Some (JObj [(''ok'', JBool True)])), ?s1)"
    by (simp add: dispatch_def other_tools_def test_executor_def bindE_def returnE_def)
  have m: "aiMemory ?s1 = Some (new_SimpleMemory None True)"
    by (simp add: test_state_def)
  have n1: "JObj [(''ok'', JBool True)] \<noteq> JUndefined" and n2: "JObj [(''ok'', JBool True)] \<noteq> JNull"
    by simp_all
  note t = returned_execution_is_logged[OF v d n1 n2 m]
  from t obtain m' where e: "execute test_executor ?tc test_state =
        (Inr \<lparr>success = True, tool = ''get_current_state'', result = Some (JObj [(''ok'', JBool True)]),
              error = None, executionTime = None\<rparr>, ?s1\<lparr>aiMemory := Some m'\<rparr>)"
      and l: "last (executions (memory m')) =
        \<lparr>exec_tool = ''get_current_state'', exec_args = JObj [], exec_success = True,
         exec_error = JNull, timestamp = clock test_executor (world ?s1)\<rparr>"
    by (auto simp: test_state_def default_null_def)
  have c: "clock test_executor (world ?s1) = 107"
    by (simp add: test_executor_def test_state_def tick_def)
  have x: "on_exec (execute (toolExecutor test_agent) ?tc) test_agent_state =
      (Inr \<lparr>success = True, tool = ''get_current_state'', result = Some (JObj [(''ok'', JBool True)]),
              error = None, executionTime = None\<rparr>,
       test_agent_state\<lparr>exec := ?s1\<lparr>aiMemory := Some m'\<rparr>\<rparr>)"
    using e by (simp add: on_exec_def test_agent_def test_agent_state_def)
  from t have "on_exec (execute (toolExecutor test_agent) ?tc) test_agent_state =
      (Inr \<lparr>success = True, tool = ''get_current_state'', result = Some (JObj [(''ok'', JBool True)]),
              error = None, executionTime = None\<rparr>,
       test_agent_state\<lparr>exec := ?s1\<lparr>aiMemory := Some m'\<rparr>\<rparr>) \<longrightarrow>
     run_toolCalls test_agent [?tc] [] [] test_agent_state =
      (Inr ([] @ [tool_message test_agent ?tc (timed test_agent test_agent_state
                   (test_agent_state\<lparr>exec := ?s1\<lparr>aiMemory := Some m'\<rparr>\<rparr>)
                   \<lparr>success = True, tool = ''get_current_state'',
                    result = Some (JObj [(''ok'', JBool True)]), error = None, executionTime = None\<rparr>)],
            [] @ [timed test_agent test_agent_state
                   (test_agent_state\<lparr>exec := ?s1\<lparr>aiMemory := Some m'\<rparr>\<rparr>)
                   \<lparr>success = True, tool = ''get_current_state'',
                    result = Some (JObj [(''ok'', JBool True)]), error = None, executionTime = None\<rparr>]),
       test_agent_state\<lparr>exec := ?s1\<lparr>aiMemory := Some m'\<rparr>\<rparr>)"
    by blast
  with x have r: "run_toolCalls test_agent [?tc] [] [] test_agent_state =
      (Inr ([] @ [tool_message test_agent ?tc (timed test_agent test_agent_state
                   (test_agent_state\<lparr>exec := ?s1\<lparr>aiMemory := Some m'\<rparr>\<rparr>)
                   \<lparr>success = True, tool = ''get_current_state'',
                    result = Some (JObj [(''ok'', JBool True)]), error = None, executionTime = None\<rparr>)],
            [] @ [timed test_agent test_agent_state
                   (test_agent_state\<lparr>exec := ?s1\<lparr>aiMemory := Some m'\<rparr>\<rparr>)
                   \<lparr>success = True, tool = ''get_current_state'',
                    result = Some (JObj [(''ok'', JBool True)]), error = None, executionTime = None\<rparr>]),
       test_agent_state\<lparr>exec := ?s1\<lparr>aiMemory := Some m'\<rparr>\<rparr>)"
    by (rule mp[rotated])
  have "map executionTime (snd (projr (fst (run_toolCalls test_agent [?tc] [] [] test_agent_state)))) = [Some 7]"
    unfolding r
    by (simp add: timed_def test_agent_def test_agent_state_def test_executor_def test_state_def tick_def)
  then show ?thesis
    using v d e l c by simp
qed



section \<open>The agent: the tool calls of one response\<close>

lemma on_exec_resolves:
  "has_arguments_object tc \<Longrightarrow> \<exists>r s'. on_exec (execute ex tc) s = (Inr r, s')"
  using execute_resolves[of tc ex "exec s"]
  by (cases "execute ex tc (exec s)") (auto simp: on_exec_def)

text \<open>
  C9.  When a response carries the tool calls \<open>[A, B, C]\<close>, the executor runs \<open>A\<close> on
  the state the response left, \<open>B\<close> on the state \<open>A\<close> left and \<open>C\<close> on the state
  \<open>B\<close> left; the three tool messages are appended to the message list in that order,
  and each carries the id of its call as \<open>tool_call_id\<close>.  The round of the loop that
  received the response goes on to the next request with the assistant message and the
  three tool messages, in this order, behind the messages it had.
\<close>

theorem toolCalls_run_in_order:
  assumes "on_exec (execute (toolExecutor ag) A) s0 = (Inr rA, s1)"
    and "on_exec (execute (toolExecutor ag) B) s1 = (Inr rB, s2)"
    and "on_exec (execute (toolExecutor ag) C) s2 = (Inr rC, s3)"
  shows "run_toolCalls ag [A, B, C] messages results s0 =
        (Inr (messages @ [tool_message ag A (timed ag s0 s1 rA),
                          tool_message ag B (timed ag s1 s2 rB),
                          tool_message ag C (timed ag s2 s3 rC)],
              results @ [timed ag s0 s1 rA, timed ag s1 s2 rB, timed ag s2 s3 rC]), s3) \<and>
      map tool_call_id [tool_message ag A (timed ag s0 s1 rA),
                        tool_message ag B (timed ag s1 s2 rB),
                        tool_message ag C (timed ag s2 s3 rC)] =
        [Some (call_id A), Some (call_id B), Some (call_id C)] \<and>
      map role [tool_message ag A (timed ag s0 s1 rA),
                tool_message ag B (timed ag s1 s2 rB),
                tool_message ag C (timed ag s2 s3 rC)] = [Tool, Tool, Tool] \<and>
      (\<forall>pr opts i ms rs s resp.
         i < maxIterations ag \<longrightarrow>
         on_exec (on_world (chat pr ms opts)) s = (Inr resp, s0) \<longrightarrow>
         toolCalls resp = Some [A, B, C] \<longrightarrow>
         tool_loop ag pr opts i ms rs s =
           tool_loop ag pr opts (i + 1)
             (ms @ [assistant_message ag resp [A, B, C],
                    tool_message ag A (timed ag s0 s1 rA),
                    tool_message ag B (timed ag s1 s2 rB),
                    tool_message ag C (timed ag s2 s3 rC)])
             (rs @ [timed ag s0 s1 rA, timed ag s1 s2 rB, timed ag s2 s3 rC]) s3)"
proof -
  have run: "run_toolCalls ag [A, B, C] ms' rs' s0 =
        (Inr (ms' @ [tool_message ag A (timed ag s0 s1 rA),
                     tool_message ag B (timed ag s1 s2 rB),
                     tool_message ag C (timed ag s2 s3 rC)],
              rs' @ [timed ag s0 s1 rA, timed ag s1 s2 rB, timed ag s2 s3 rC]), s3)" for ms' rs'
    using assms by simp
  have round: "tool_loop ag pr opts i ms rs s =
           tool_loop ag pr opts (i + 1)
             (ms @ [assistant_message ag resp [A, B, C],
                    tool_message ag A (timed ag s0 s1 rA),
                    tool_message ag B (timed ag s1 s2 rB),
                    tool_message ag C (timed ag s2 s3 rC)])
             (rs @ [timed ag s0 s1 rA, timed ag s1 s2 rB, timed ag s2 s3 rC]) s3"
    if "i < maxIterations ag" "on_exec (on_world (chat pr ms opts)) s = (Inr resp, s0)"
      "toolCalls resp = Some [A, B, C]" for pr opts i ms rs s resp
    using that run[of "ms @ [assistant_message ag resp [A, B, C]]" rs]
    by (subst tool_loop.simps) simp
  show ?thesis
    using run[of messages results] round by (simp add: tool_message_def)
qed

lemma run_toolCalls_example:
  "calls (world (exec (snd (run_toolCalls test_agent
      [\<lparr>call_id = ''a'', name = ''get_editor_code'', arguments = JObj []\<rparr>,
       \<lparr>call_id = ''b'', name = ''list_boards'', arguments = JObj []\<rparr>,
       \<lparr>call_id = ''c'', name = ''get_current_state'', arguments = JObj []\<rparr>] [] [] after_chat)))) =
     [''get_editor_code'', ''list_boards'', ''get_current_state''] \<and>
   map success (snd (projr (fst (run_toolCalls test_agent
      [\<lparr>call_id = ''a'', name = ''get_editor_code'', arguments = JObj []\<rparr>,
       \<lparr>call_id = ''b'', name = ''list_boards'', arguments = JObj []\<rparr>,
       \<lparr>call_id = ''c'', name = ''get_current_state'', arguments = JObj []\<rparr>] [] [] after_chat)))) =
     [True, False, True] \<and>
   map executionTime (snd (projr (fst (run_toolCalls test_agent
      [\<lparr>call_id = ''a'', name = ''get_editor_code'', arguments = JObj []\<rparr>,
       \<lparr>call_id = ''b'', name = ''list_boards'', arguments = JObj []\<rparr>,
       \<lparr>call_id = ''c'', name = ''get_current_state'', arguments = JObj []\<rparr>] [] [] after_chat)))) =
     [Some 7, Some 7, Some 7]"
  by code_simp

lemma batch_provider_chat:
  "on_exec (on_world (chat batch_provider ms opts)) test_agent_state =
     (Inr \<lparr>response_content = None,
           toolCalls = Some [\<lparr>call_id = ''a'', name = ''get_editor_code'', arguments = JObj []\<rparr>,
                             \<lparr>call_id = ''b'', name = ''list_boards'', arguments = JObj []\<rparr>,
                             \<lparr>call_id = ''c'', name = ''get_current_state'', arguments = JObj []\<rparr>],
           response_usage = JNull, response_model = JStr ''stub''\<rparr>, after_chat)"
  by (simp add: on_exec_def on_world_def batch_provider_def after_chat_def test_agent_state_def
      test_state_def)

theorem toolCalls_run_in_order_witness:
  "map tool_call_id (fst (projr (fst (run_toolCalls test_agent
      [\<lparr>call_id = ''a'', name = ''get_editor_code'', arguments = JObj []\<rparr>,
       \<lparr>call_id = ''b'', name = ''list_boards'', arguments = JObj []\<rparr>,
       \<lparr>call_id = ''c'', name = ''get_current_state'', arguments = JObj []\<rparr>] [] [] after_chat)))) =
     [Some ''a'', Some ''b'', Some ''c''] \<and>
   calls (world (exec (snd (run_toolCalls test_agent
      [\<lparr>call_id = ''a'', name = ''get_editor_code'', arguments = JObj []\<rparr>,
       \<lparr>call_id = ''b'', name = ''list_boards'', arguments = JObj []\<rparr>,
       \<lparr>call_id = ''c'', name = ''get_current_state'', arguments = JObj []\<rparr>] [] [] after_chat)))) =
     [''get_editor_code'', ''list_boards'', ''get_current_state''] \<and>
   map success (snd (projr (fst (run_toolCalls test_agent
      [\<lparr>call_id = ''a'', name = ''get_editor_code'', arguments = JObj []\<rparr>,
       \<lparr>call_id = ''b'', name = ''list_boards'', arguments = JObj []\<rparr>,
       \<lparr>call_id = ''c'', name = ''get_current_state'', arguments = JObj []\<rparr>] [] [] after_chat)))) =
     [True, False, True] \<and>
   (\<exists>ms rs s. tool_loop test_agent batch_provider (chatOptions test_agent Agent) 0 [] [] test_agent_state =
        tool_loop test_agent batch_provider (chatOptions test_agent Agent) 1 ms rs s \<and>
      map role ms = [Assistant, Tool, Tool, Tool] \<and>
      map tool_call_id ms = [None, Some ''a'', Some ''b'', Some ''c''] \<and>
      length rs = 3)"
proof -
  let ?A = "\<lparr>call_id = ''a'', name = ''get_editor_code'', arguments = JObj []\<rparr>"
  let ?B = "\<lparr>call_id = ''b'', name = ''list_boards'', arguments = JObj []\<rparr>"
  let ?C = "\<lparr>call_id = ''c'', name = ''get_current_state'', arguments = JObj []\<rparr>"
  let ?resp = "\<lparr>response_content = None, toolCalls = Some [?A, ?B, ?C],
                response_usage = JNull, response_model = JStr ''stub''\<rparr>"
  let ?opts = "chatOptions test_agent Agent"
  obtain rA s1 where a: "on_exec (execute (toolExecutor test_agent) ?A) after_chat = (Inr rA, s1)"
    using on_exec_resolves[of ?A "toolExecutor test_agent" after_chat]
    by (auto simp: has_arguments_object_def)
  obtain rB s2 where b: "on_exec (execute (toolExecutor test_agent) ?B) s1 = (Inr rB, s2)"
    using on_exec_resolves[of ?B "toolExecutor test_agent" s1]
    by (auto simp: has_arguments_object_def)
  obtain rC s3 where c: "on_exec (execute (toolExecutor test_agent) ?C) s2 = (Inr rC, s3)"
    using on_exec_resolves[of ?C "toolExecutor test_agent" s2]
    by (auto simp: has_arguments_object_def)
  have lt: "0 < maxIterations test_agent"
    by (simp add: test_agent_def)
  have tc: "toolCalls ?resp = Some [?A, ?B, ?C]"
    by simp
  note t = toolCalls_run_in_order[OF a b c, of "[]" "[]"]
  from t have ids: "map tool_call_id (fst (projr (fst (run_toolCalls test_agent [?A, ?B, ?C] [] [] after_chat)))) =
     [Some ''a'', Some ''b'', Some ''c'']"
    by simp
  from t have "tool_loop test_agent batch_provider ?opts 0 [] [] test_agent_state =
      tool_loop test_agent batch_provider ?opts (0 + 1)
        ([] @ [assistant_message test_agent ?resp [?A, ?B, ?C],
               tool_message test_agent ?A (timed test_agent after_chat s1 rA),
               tool_message test_agent ?B (timed test_agent s1 s2 rB),
               tool_message test_agent ?C (timed test_agent s2 s3 rC)])
        ([] @ [timed test_agent after_chat s1 rA, timed test_agent s1 s2 rB, timed test_agent s2 s3 rC]) s3"
    using lt batch_provider_chat[of "[]" ?opts] tc by blast
  then have round: "\<exists>ms rs s. tool_loop test_agent batch_provider ?opts 0 [] [] test_agent_state =
        tool_loop test_agent batch_provider ?opts 1 ms rs s \<and>
      map role ms = [Assistant, Tool, Tool, Tool] \<and>
      map tool_call_id ms = [None, Some ''a'', Some ''b'', Some ''c''] \<and>
      length rs = 3"
    by (intro exI[where x = "[assistant_message test_agent ?resp [?A, ?B, ?C],
               tool_message test_agent ?A (timed test_agent after_chat s1 rA),
               tool_message test_agent ?B (timed test_agent s1 s2 rB),
               tool_message test_agent ?C (timed test_agent s2 s3 rC)]"]
         exI[where x = "[timed test_agent after_chat s1 rA, timed test_agent s1 s2 rB, timed test_agent s2 s3 rC]"]
         exI[where x = s3])
       (simp add: tool_message_def assistant_message_def)
  show ?thesis
    using ids round run_toolCalls_example by simp
qed

section \<open>The memory store: search and fixes\<close>

lemma slice0_length: "0 \<le> limit \<Longrightarrow> int (length (slice0 limit xs)) \<le> limit"
  by (simp add: slice0_def)

text \<open>
  C7, as amended.  When an entry with the signature of \<open>E\<close> is in the store and a fix
  \<open>F\<close> is recorded for that signature, a search for \<open>E\<close> returns the first entry with
  the signature, confidence 1, and the fixes recorded for the signature in the order they
  were recorded, \<open>F\<close> among them (the store keeps no \<open>successCount\<close> to rank them by).
  When no entry has the signature, the search returns at most \<open>limit\<close> candidates, each
  with confidence 0.5.
\<close>

theorem exact_match_returns_fix:
  "(loaded s \<longrightarrow> e \<in> set (errors (memory s)) \<longrightarrow> signature e = generateSignature H E \<longrightarrow>
      F \<in> set (fixes_m (memory s)) \<longrightarrow> errorSignature F = generateSignature H E \<longrightarrow>
      (\<exists>e' fs. searchSimilarErrors H E limit s = (ExactMatch e' fs 1, s) \<and>
         find (\<lambda>x. signature x = generateSignature H E) (errors (memory s)) = Some e' \<and>
         fs = filter (\<lambda>f. errorSignature f = generateSignature H E) (fixes_m (memory s)) \<and>
         F \<in> set fs)) \<and>
   (loaded s \<longrightarrow> find (\<lambda>x. signature x = generateSignature H E) (errors (memory s)) = None \<longrightarrow>
      0 \<le> limit \<longrightarrow>
      (\<exists>ms. searchSimilarErrors H E limit s = (SimilarMatches ms (length ms), s) \<and>
         int (length ms) \<le> limit \<and> (\<forall>m \<in> set ms. confidence m = 1 / 2)))"
proof (intro conjI impI)
  assume l: "loaded s" and e: "e \<in> set (errors (memory s))"
    and se: "signature e = generateSignature H E"
    and f: "F \<in> set (fixes_m (memory s))" and sf: "errorSignature F = generateSignature H E"
  from e se obtain e' where e': "find (\<lambda>x. signature x = generateSignature H E) (errors (memory s)) = Some e'"
    by (cases "find (\<lambda>x. signature x = generateSignature H E) (errors (memory s))")
       (auto simp: find_None_iff)
  show "\<exists>e' fs. searchSimilarErrors H E limit s = (ExactMatch e' fs 1, s) \<and>
         find (\<lambda>x. signature x = generateSignature H E) (errors (memory s)) = Some e' \<and>
         fs = filter (\<lambda>f. errorSignature f = generateSignature H E) (fixes_m (memory s)) \<and>
         F \<in> set fs"
    using l e' f sf by (simp add: searchSimilarErrors_def Let_def)
next
  assume l: "loaded s"
    and n: "find (\<lambda>x. signature x = generateSignature H E) (errors (memory s)) = None"
    and lim: "0 \<le> limit"
  show "\<exists>ms. searchSimilarErrors H E limit s = (SimilarMatches ms (length ms), s) \<and>
         int (length ms) \<le> limit \<and> (\<forall>m \<in> set ms. confidence m = 1 / 2)"
    using l n slice0_length[OF lim] by (auto simp: searchSimilarErrors_def Let_def)
qed

lemma search_example:
  "searchSimilarErrors stub_digest ''avrdude: stk500_getsync(): not in sync'' 10
     (snd (recordFix (fst (recordError stub_digest ''avrdude: stk500_getsync(): not in sync'' None JNull 10
                        (new_SimpleMemory None True)))
            ''lower the upload speed'' JNull 20
            (snd (recordError stub_digest ''avrdude: stk500_getsync(): not in sync'' None JNull 10
                    (new_SimpleMemory None True))))) =
   (ExactMatch
      \<lparr>error_id = 10, signature = ''617672647564653a'',
       message = ''avrdude: stk500_getsync(): not in sync'', errorType = None, error_context = JNull,
       count = 1, firstSeen = 10, lastSeen = 10\<rparr>
      [\<lparr>fix_id = 20, errorSignature = ''617672647564653a'', description = ''lower the upload speed'',
        fix_context = JNull, createdAt = 20\<rparr>] 1,
    (snd (recordFix (fst (recordError stub_digest ''avrdude: stk500_getsync(): not in sync'' None JNull 10
                        (new_SimpleMemory None True)))
            ''lower the upload speed'' JNull 20
            (snd (recordError stub_digest ''avrdude: stk500_getsync(): not in sync'' None JNull 10
                    (new_SimpleMemory None True))))))"
  by code_simp

lemma fuzzy_example:
  "searchSimilarErrors stub_digest ''STK500_getsync'' 10
     (snd (recordError stub_digest ''avrdude: stk500_getsync(): not in sync'' None JNull 10
             (new_SimpleMemory None True))) =
   (SimilarMatches
      [\<lparr>sm_error = \<lparr>error_id = 10, signature = ''617672647564653a'',
          message = ''avrdude: stk500_getsync(): not in sync'', errorType = None, error_context = JNull,
          count = 1, firstSeen = 10, lastSeen = 10\<rparr>,
        sm_fixes = [], confidence = 1 / 2\<rparr>] 1,
    snd (recordError stub_digest ''avrdude: stk500_getsync(): not in sync'' None JNull 10
             (new_SimpleMemory None True)))"
  by code_simp

lemma example_store_facts:
  "loaded (snd (recordFix (fst (recordError stub_digest ''avrdude: stk500_getsync(): not in sync'' None JNull 10
                        (new_SimpleMemory None True)))
            ''lower the upload speed'' JNull 20
            (snd (recordError stub_digest ''avrdude: stk500_getsync(): not in sync'' None JNull 10
                    (new_SimpleMemory None True))))) \<and>
   \<lparr>error_id = 10, signature = ''617672647564653a'',
       message = ''avrdude: stk500_getsync(): not in sync'', errorType = None, error_context = JNull,
       count = 1, firstSeen = 10, lastSeen = 10\<rparr>
     \<in> set (errors (memory (snd (recordFix (fst (recordError stub_digest ''avrdude: stk500_getsync(): not in sync'' None JNull 10
                        (new_SimpleMemory None True)))
            ''lower the upload speed'' JNull 20
            (snd (recordError stub_digest ''avrdude: stk500_getsync(): not in sync'' None JNull 10
                    (new_SimpleMemory None True))))))) \<and>
   \<lparr>fix_id = 20, errorSignature = ''617672647564653a'', description = ''lower the upload speed'',
        fix_context = JNull, createdAt = 20\<rparr>
     \<in> set (fixes_m (memory (snd (recordFix (fst (recordError stub_digest ''avrdude: stk500_getsync(): not in sync'' None JNull 10
                        (new_SimpleMemory None True)))
            ''lower the upload speed'' JNull 20
            (snd (recordError stub_digest ''avrdude: stk500_getsync(): not in sync'' None JNull 10
                    (new_SimpleMemory None True))))))) \<and>
   generateSignature stub_digest ''avrdude: stk500_getsync(): not in sync'' = ''617672647564653a'' \<and>
   loaded (snd (recordError stub_digest ''avrdude: stk500_getsync(): not in sync'' None JNull 10
             (new_SimpleMemory None True))) \<and>
   find (\<lambda>x. signature x = generateSignature stub_digest ''STK500_getsync'')
     (errors (memory (snd (recordError stub_digest ''avrdude: stk500_getsync(): not in sync'' None JNull 10
             (new_SimpleMemory None True))))) = None"
  by code_simp

theorem exact_match_returns_fix_witness:
  "fst (searchSimilarErrors stub_digest ''avrdude: stk500_getsync(): not in sync'' 10
     (snd (recordFix (fst (recordError stub_digest ''avrdude: stk500_getsync(): not in sync'' None JNull 10
                        (new_SimpleMemory None True)))
            ''lower the upload speed'' JNull 20
            (snd (recordError stub_digest ''avrdude: stk500_getsync(): not in sync'' None JNull 10
                    (new_SimpleMemory None True)))))) =
   ExactMatch
      \<lparr>error_id = 10, signature = ''617672647564653a'',
       message = ''avrdude: stk500_getsync(): not in sync'', errorType = None, error_context = JNull,
       count = 1, firstSeen = 10, lastSeen = 10\<rparr>
      [\<lparr>fix_id = 20, errorSignature = ''617672647564653a'', description = ''lower the upload speed'',
        fix_context = JNull, createdAt = 20\<rparr>] 1 \<and>
   fst (searchSimilarErrors stub_digest ''STK500_getsync'' 10
     (snd (recordError stub_digest ''avrdude: stk500_getsync(): not in sync'' None JNull 10
             (new_SimpleMemory None True)))) =
   SimilarMatches
      [\<lparr>sm_error = \<lparr>error_id = 10, signature = ''617672647564653a'',
          message = ''avrdude: stk500_getsync(): not in sync'', errorType = None, error_context = JNull,
          count = 1, firstSeen = 10, lastSeen = 10\<rparr>,
        sm_fixes = [], confidence = 1 / 2\<rparr>] 1"
proof -
  let ?E = "''avrdude: stk500_getsync(): not in sync''"
  let ?s1 = "snd (recordError stub_digest ?E None JNull 10 (new_SimpleMemory None True))"
  let ?s2 = "snd (recordFix (fst (recordError stub_digest ?E None JNull 10 (new_SimpleMemory None True)))
            ''lower the upload speed'' JNull 20 ?s1)"
  let ?e = "\<lparr>error_id = 10, signature = ''617672647564653a'', message = ?E, errorType = None,
       error_context = JNull, count = 1, firstSeen = 10, lastSeen = 10\<rparr>"
  let ?F = "\<lparr>fix_id = 20, errorSignature = ''617672647564653a'', description = ''lower the upload speed'',
        fix_context = JNull, createdAt = 20\<rparr>"
  note f = example_store_facts
  from f have f1: "loaded ?s2" by (rule conjunct1)
  from f have f2: "?e \<in> set (errors (memory ?s2))" by (elim conjE)
  from f have f3: "?F \<in> set (fixes_m (memory ?s2))" by (elim conjE)
  from f have f4: "generateSignature stub_digest ?E = ''617672647564653a''" by (elim conjE)
  from f have f5: "loaded ?s1" by (elim conjE)
  from f have f6: "find (\<lambda>x. signature x = generateSignature stub_digest ''STK500_getsync'')
     (errors (memory ?s1)) = None" by (elim conjE)
  have se: "signature ?e = generateSignature stub_digest ?E" using f4 by simp
  have sf: "errorSignature ?F = generateSignature stub_digest ?E" using f4 by simp
  note T1 = exact_match_returns_fix[where s = ?s2 and e = ?e and F = ?F and H = stub_digest and E = ?E
      and limit = 10, THEN conjunct1, rule_format, OF f1 f2 se f3 sf]
  from T1 obtain e' fs where x: "searchSimilarErrors stub_digest ?E 10 ?s2 = (ExactMatch e' fs 1, ?s2)"
    by blast
  have lim: "(0::int) \<le> 10" by simp
  note T2 = exact_match_returns_fix[where s = ?s1 and H = stub_digest and E = "''STK500_getsync''"
      and limit = 10, THEN conjunct2, rule_format, OF f5 f6 lim]
  from T2 obtain ms where y: "searchSimilarErrors stub_digest ''STK500_getsync'' 10 ?s1 =
      (SimilarMatches ms (length ms), ?s1)"
    by blast
  from x search_example have "fst (searchSimilarErrors stub_digest ?E 10 ?s2) = ExactMatch ?e [?F] 1"
    by simp
  moreover from y fuzzy_example have "fst (searchSimilarErrors stub_digest ''STK500_getsync'' 10 ?s1) =
     SimilarMatches [\<lparr>sm_error = ?e, sm_fixes = [], confidence = 1 / 2\<rparr>] 1"
    by simp
  ultimately show ?thesis by simp
qed

text \<open>
  C7, as claimed, fails: a fix recorded once comes before a fix recorded twice, so the
  fixes are not in descending order of the number of times they were recorded.
\<close>

theorem exact_match_fixes_not_ranked:
  "(case fst (searchSimilarErrors stub_digest ''avrdude: stk500_getsync(): not in sync'' 10
      (snd (recordFix ''617672647564653a'' ''lower the upload speed'' JNull 40
      (snd (recordFix ''617672647564653a'' ''lower the upload speed'' JNull 30
      (snd (recordFix ''617672647564653a'' ''reseat the USB cable'' JNull 20
      (snd (recordError stub_digest ''avrdude: stk500_getsync(): not in sync'' None JNull 10
              (new_SimpleMemory None True))))))))))
    of ExactMatch e fs c \<Rightarrow>
         map description fs = [''reseat the USB cable'', ''lower the upload speed'', ''lower the upload speed''] \<and>
         map (successCount_spec fs) fs = [1, 2, 2] \<and>
         \<not> sorted_wrt (\<lambda>a b. a \<ge> b) (map (successCount_spec fs) fs)
     | SimilarMatches ms n \<Rightarrow> False)"
  by code_simp

lemma recordFix_appends:
  "recordFix sg d c t s =
     (\<lparr>fix_id = t, errorSignature = sg, description = d, fix_context = default_null c, createdAt = t\<rparr>,
      save ((ensureLoaded s)\<lparr>memory := (memory (ensureLoaded s))\<lparr>fixes_m := fixes_m (memory (ensureLoaded s)) @
        [\<lparr>fix_id = t, errorSignature = sg, description = d, fix_context = default_null c, createdAt = t\<rparr>]\<rparr>\<rparr>))"
  by (simp add: recordFix_def Let_def)

text \<open>
  C8, as amended.  Every call of \<open>recordFix\<close> appends a new entry and returns it:
  recording the same description twice for the same signature leaves two entries with
  that signature and description at the end of the list.  The context of an entry is the
  one passed, \<open>null\<close> when none was.
\<close>

theorem recordFix_twice_appends_two:
  "fixes_m (memory (snd (recordFix sg d c2 t2 (snd (recordFix sg d c1 t1 s))))) =
     fixes_m (memory (ensureLoaded s)) @
       [\<lparr>fix_id = t1, errorSignature = sg, description = d, fix_context = default_null c1, createdAt = t1\<rparr>,
        \<lparr>fix_id = t2, errorSignature = sg, description = d, fix_context = default_null c2, createdAt = t2\<rparr>] \<and>
   fst (recordFix sg d c1 t1 s) =
     \<lparr>fix_id = t1, errorSignature = sg, description = d, fix_context = default_null c1, createdAt = t1\<rparr> \<and>
   fst (recordFix sg d c2 t2 (snd (recordFix sg d c1 t1 s))) =
     \<lparr>fix_id = t2, errorSignature = sg, description = d, fix_context = default_null c2, createdAt = t2\<rparr> \<and>
   default_null JUndefined = JNull \<and> default_null (JObj kvs) = JObj kvs"
  by (simp add: recordFix_appends default_null_def)

text \<open>
  C8, as claimed, fails: after the same fix was recorded twice for one signature, the
  first time by a call without a context, the store holds two entries for it.
\<close>

theorem recordFix_twice_duplicates:
  "fixes_m (memory (snd (recordFix ''617672647564653a'' ''lower the upload speed''
       (JObj [(''board'', JStr ''arduino:avr:uno'')]) 2
     (snd (recordFix ''617672647564653a'' ''lower the upload speed'' JUndefined 1
       (new_SimpleMemory None True)))))) =
     [\<lparr>fix_id = 1, errorSignature = ''617672647564653a'', description = ''lower the upload speed'',
       fix_context = JNull, createdAt = 1\<rparr>,
      \<lparr>fix_id = 2, errorSignature = ''617672647564653a'', description = ''lower the upload speed'',
       fix_context = JObj [(''board'', JStr ''arduino:avr:uno'')], createdAt = 2\<rparr>]"
  by (simp add: recordFix_appends new_SimpleMemory_def ensureLoaded_def load_def empty_memory_def
      default_null_def)

section \<open>The agent: the loop\<close>

lemma tool_message_role [simp]: "role (tool_message ag tc r) = Tool"
  by (simp add: tool_message_def)

lemma run_toolCalls_resolves:
  "\<forall>tc \<in> set tcs. has_arguments_object tc \<Longrightarrow>
     \<exists>ms' rs' s'. run_toolCalls ag tcs ms rs s = (Inr (ms @ ms', rs @ rs'), s') \<and>
        length ms' = length tcs \<and> length rs' = length tcs \<and> (\<forall>x \<in> set ms'. role x = Tool)"
proof (induction tcs arbitrary: ms rs s)
  case Nil
  then show ?case by simp
next
  case (Cons tc tcs)
  from Cons.prems have "has_arguments_object tc" by simp
  from on_exec_resolves[OF this, of "toolExecutor ag" s]
  obtain r s1 where e: "on_exec (execute (toolExecutor ag) tc) s = (Inr r, s1)" by blast
  from Cons.prems have "\<forall>tc \<in> set tcs. has_arguments_object tc" by simp
  from Cons.IH[OF this, of "ms @ [tool_message ag tc (timed ag s s1 r)]" "rs @ [timed ag s s1 r]" s1]
  obtain ms' rs' s' where
    r: "run_toolCalls ag tcs (ms @ [tool_message ag tc (timed ag s s1 r)]) (rs @ [timed ag s s1 r]) s1 =
          (Inr ((ms @ [tool_message ag tc (timed ag s s1 r)]) @ ms', (rs @ [timed ag s s1 r]) @ rs'), s')"
    and l: "length ms' = length tcs" "length rs' = length tcs" "\<forall>x \<in> set ms'. role x = Tool"
    by blast
  have "run_toolCalls ag (tc # tcs) ms rs s =
      (Inr (ms @ (tool_message ag tc (timed ag s s1 r) # ms'), rs @ (timed ag s s1 r # rs')), s')"
    using e r by simp
  moreover have "length (tool_message ag tc (timed ag s s1 r) # ms') = length (tc # tcs)"
    "length (timed ag s s1 r # rs') = length (tc # tcs)"
    "\<forall>x \<in> set (tool_message ag tc (timed ag s s1 r) # ms'). role x = Tool"
    using l by simp_all
  ultimately show ?case by blast
qed

lemma on_exec_chat:
  "chat pr ms opts (world (exec s)) = (r, w') \<Longrightarrow>
     on_exec (on_world (chat pr ms opts)) s = (r, s\<lparr>exec := (exec s)\<lparr>world := w'\<rparr>\<rparr>)"
  by (simp add: on_exec_def on_world_def)

lemma proposals_append [simp]: "proposals (xs @ ys) = proposals xs + proposals ys"
  by (simp add: proposals_def)

lemma proposals_tools: "\<forall>x \<in> set ms. role x = Tool \<Longrightarrow> proposals ms = 0"
  by (induction ms) (auto simp: proposals_def)

lemma proposals_assistant [simp]: "proposals (assistant_message ag resp tcs # ms) = 1 + proposals ms"
  by (simp add: proposals_def assistant_message_def)

lemma tool_loop_exhausts:
  assumes "always_proposes_tools pr"
  shows "i \<le> maxIterations ag \<Longrightarrow>
     \<exists>lp s'. tool_loop ag pr opts i ms rs s = (Inr lp, s') \<and> final lp = None \<and>
        iteration lp = maxIterations ag \<and>
        proposals (loop_messages lp) = proposals ms + (maxIterations ag - i) \<and>
        length rs + (maxIterations ag - i) \<le> length (loop_results lp) \<and>
        take (length rs) (loop_results lp) = rs"
proof (induction "maxIterations ag - i" arbitrary: i ms rs s)
  case 0
  then have "\<not> i < maxIterations ag" by simp
  then have "tool_loop ag pr opts i ms rs s =
      (Inr \<lparr>final = None, iteration = i, loop_messages = ms, loop_results = rs\<rparr>, s)"
    by (subst tool_loop.simps) simp
  with 0 show ?case by simp
next
  case (Suc n)
  then have lt: "i < maxIterations ag" by simp
  from assms obtain resp w' tcs where
    c: "chat pr ms opts (world (exec s)) = (Inr resp, w')" and t: "toolCalls resp = Some tcs"
    and ne: "tcs \<noteq> []" and wf: "\<forall>tc \<in> set tcs. has_arguments_object tc"
    unfolding always_proposes_tools_def by blast
  let ?s1 = "s\<lparr>exec := (exec s)\<lparr>world := w'\<rparr>\<rparr>"
  from run_toolCalls_resolves[OF wf, of ag "ms @ [assistant_message ag resp tcs]" rs ?s1]
  obtain ms' rs' s2 where
    r: "run_toolCalls ag tcs (ms @ [assistant_message ag resp tcs]) rs ?s1 =
         (Inr ((ms @ [assistant_message ag resp tcs]) @ ms', rs @ rs'), s2)"
    and l: "length ms' = length tcs" "length rs' = length tcs" "\<forall>x \<in> set ms'. role x = Tool"
    by blast
  have step: "tool_loop ag pr opts i ms rs s =
      tool_loop ag pr opts (i + 1) ((ms @ [assistant_message ag resp tcs]) @ ms') (rs @ rs') s2"
    using lt on_exec_chat[OF c] t ne r by (subst tool_loop.simps) simp
  have n: "n = maxIterations ag - (i + 1)" using Suc.hyps(2) by simp
  have le: "i + 1 \<le> maxIterations ag" using lt by simp
  from Suc.hyps(1)[OF n le, of "(ms @ [assistant_message ag resp tcs]) @ ms'" "rs @ rs'" s2]
  obtain lp s' where
    lp: "tool_loop ag pr opts (i + 1) ((ms @ [assistant_message ag resp tcs]) @ ms') (rs @ rs') s2 = (Inr lp, s')"
    "final lp = None" "iteration lp = maxIterations ag"
    "proposals (loop_messages lp) =
       proposals ((ms @ [assistant_message ag resp tcs]) @ ms') + (maxIterations ag - (i + 1))"
    "length (rs @ rs') + (maxIterations ag - (i + 1)) \<le> length (loop_results lp)"
    "take (length (rs @ rs')) (loop_results lp) = rs @ rs'"
    by blast
  have p: "proposals (loop_messages lp) = proposals ms + (maxIterations ag - i)"
    using lp(4) proposals_tools[OF l(3)] lt by simp
  have len: "length rs + (maxIterations ag - i) \<le> length (loop_results lp)"
    using lp(5) l(2) ne lt by (cases tcs) simp_all
  have "take (length rs) (take (length (rs @ rs')) (loop_results lp)) = take (length rs) (rs @ rs')"
    using lp(6) by simp
  then have pre: "take (length rs) (loop_results lp) = rs"
    by (simp add: min_def)
  show ?case
    using step lp(1-3) p len pre by simp
qed

lemma getToolsForMode_nonempty: "m \<noteq> Ask \<Longrightarrow> getToolsForMode m \<noteq> []"
  by (cases m)
     (simp_all add: getToolsForMode_def getAllTools_def getDebugTools_def TOOL_SCHEMA_def
        DEBUG_TOOL_NAMES_def)

text \<open>
  C4.  With a provider whose every response proposes at least one tool call, in a mode
  with tools, \<open>processQuery\<close> returns: the loop is left when \<open>iteration\<close> has reached
  \<open>maxIterations\<close>, after exactly that many rounds (each appended one assistant message
  with tool calls), and the result is the warning \<open>max_iterations_reached\<close> together
  with the tool results accumulated in the rounds, at least one for each round.
\<close>

theorem iteration_limit:
  assumes "currentProvider ag = Some pr" and "always_proposes_tools pr" and "m \<noteq> Ask"
  shows "\<exists>lp s'.
      tool_loop ag pr (chatOptions ag m) 0 (initial_messages ag m (push_user q c s)) []
          (push_user q c s) = (Inr lp, s') \<and>
      final lp = None \<and> iteration lp = maxIterations ag \<and>
      proposals (loop_messages lp) =
        proposals (initial_messages ag m (push_user q c s)) + maxIterations ag \<and>
      maxIterations ag \<le> length (loop_results lp) \<and>
      processQuery ag q c m s =
        (Inr \<lparr>response = Some ''Maximum iterations reached. Please refine your query.'',
              toolResults = loop_results lp, usage = None, model = None,
              warning = Some ''max_iterations_reached''\<rparr>, s')"
proof -
  have "0 \<le> maxIterations ag" by simp
  from tool_loop_exhausts[OF assms(2) this, of "chatOptions ag m"
      "initial_messages ag m (push_user q c s)" "[]" "push_user q c s"]
  have "\<exists>lp s'. tool_loop ag pr (chatOptions ag m) 0 (initial_messages ag m (push_user q c s)) []
          (push_user q c s) = (Inr lp, s') \<and>
      final lp = None \<and> iteration lp = maxIterations ag \<and>
      proposals (loop_messages lp) =
        proposals (initial_messages ag m (push_user q c s)) + maxIterations ag \<and>
      maxIterations ag \<le> length (loop_results lp)"
    by simp
  then obtain lp s' where lp:
    "tool_loop ag pr (chatOptions ag m) 0 (initial_messages ag m (push_user q c s)) []
          (push_user q c s) = (Inr lp, s')"
    "final lp = None" "iteration lp = maxIterations ag"
    "proposals (loop_messages lp) =
        proposals (initial_messages ag m (push_user q c s)) + maxIterations ag"
    "maxIterations ag \<le> length (loop_results lp)"
    by blast
  have "processQuery ag q c m s =
        (Inr \<lparr>response = Some ''Maximum iterations reached. Please refine your query.'',
              toolResults = loop_results lp, usage = None, model = None,
              warning = Some ''max_iterations_reached''\<rparr>, s')"
    using assms(1) getToolsForMode_nonempty[OF assms(3)] lp(1,2)
    by (simp add: processQuery_def Let_def)
  with lp show ?thesis by (intro exI[of _ lp] exI[of _ s']) simp
qed

lemma looping_provider_proposes: "always_proposes_tools looping_provider"
  by (simp add: always_proposes_tools_def looping_provider_def has_arguments_object_def)

lemma iteration_limit_example:
  "fst (processQuery test_agent ''blink the LED'' no_context Agent test_agent_state) =
     Inr \<lparr>response = Some ''Maximum iterations reached. Please refine your query.'',
          toolResults =
            [\<lparr>success = True, tool = ''get_current_state'', result = Some (JObj [(''ok'', JBool True)]),
              error = None, executionTime = Some 7\<rparr>,
             \<lparr>success = True, tool = ''get_current_state'', result = Some (JObj [(''ok'', JBool True)]),
              error = None, executionTime = Some 7\<rparr>,
             \<lparr>success = True, tool = ''get_current_state'', result = Some (JObj [(''ok'', JBool True)]),
              error = None, executionTime = Some 7\<rparr>],
          usage = None, model = None, warning = Some ''max_iterations_reached''\<rparr> \<and>
   chats (world (exec (snd (processQuery test_agent ''blink the LED'' no_context Agent test_agent_state)))) = 3 \<and>
   calls (world (exec (snd (processQuery test_agent ''blink the LED'' no_context Agent test_agent_state)))) =
     [''get_current_state'', ''get_current_state'', ''get_current_state'']"
  by code_simp

theorem iteration_limit_witness:
  "currentProvider test_agent = Some looping_provider \<and>
   always_proposes_tools looping_provider \<and>
   maxIterations test_agent = 3 \<and>
   fst (processQuery test_agent ''blink the LED'' no_context Agent test_agent_state) =
     Inr \<lparr>response = Some ''Maximum iterations reached. Please refine your query.'',
          toolResults =
            [\<lparr>success = True, tool = ''get_current_state'', result = Some (JObj [(''ok'', JBool True)]),
              error = None, executionTime = Some 7\<rparr>,
             \<lparr>success = True, tool = ''get_current_state'', result = Some (JObj [(''ok'', JBool True)]),
              error = None, executionTime = Some 7\<rparr>,
             \<lparr>success = True, tool = ''get_current_state'', result = Some (JObj [(''ok'', JBool True)]),
              error = None, executionTime = Some 7\<rparr>],
          usage = None, model = None, warning = Some ''max_iterations_reached''\<rparr> \<and>
   chats (world (exec (snd (processQuery test_agent ''blink the LED'' no_context Agent test_agent_state)))) = 3"
proof -
  have cp: "currentProvider test_agent = Some looping_provider"
    by (simp add: test_agent_def)
  have ne: "Agent \<noteq> Ask" by simp
  from iteration_limit[OF cp looping_provider_proposes ne, of "''blink the LED''" no_context test_agent_state]
  obtain lp :: loop_exit and s' where
    "processQuery test_agent ''blink the LED'' no_context Agent test_agent_state =
        (Inr \<lparr>response = Some ''Maximum iterations reached. Please refine your query.'',
              toolResults = loop_results lp, usage = None, model = None,
              warning = Some ''max_iterations_reached''\<rparr>, s')"
    by (elim exE conjE)
  then have "warning (projr (fst (processQuery test_agent ''blink the LED'' no_context Agent test_agent_state)))
      = Some ''max_iterations_reached''"
    by simp
  then show ?thesis
    using iteration_limit_example cp looping_provider_proposes by (simp add: test_agent_def)
qed






lemma timed_fields [simp]:
  "success (timed ag st st' r) = success r" "tool (timed ag st st' r) = tool r"
  "error (timed ag st st' r) = error r" "result (timed ag st st' r) = result r"
  by (simp_all add: timed_def)

















end
